theory Spec2Isabelle
  imports Complex_Main
begin

section \<open>Habit-Engine: the embedding of the behavioural modelling pipeline\<close>

text \<open>
  A shallow embedding of the core of the Habit-Engine repository:
  \<^item> \<^verbatim>\<open>src/processing/recommender.py\<close> (the recommendation cascade),
  \<^item> \<^verbatim>\<open>src/processing/features.py\<close> (the feature engineer),
  \<^item> \<^verbatim>\<open>src/models/burnout.py\<close>, \<^verbatim>\<open>adherence.py\<close>, \<^verbatim>\<open>anomaly.py\<close> (the three models).

  A Python float that the code reads from its input or compares with a threshold is a
  \<^typ>\<open>real\<close>. The doubles that the feature engineer computes (rolling statistics and
  quotients) are values of a type with infinities and \<^verbatim>\<open>NaN\<close>, and the operations that
  compute them are parameters: nothing is assumed about their rounding. In a column that
  is computed exactly a pandas \<^verbatim>\<open>NaN\<close> is \<^term>\<open>None\<close>. A Python dictionary or a one-row
  frame read by column name is a map from names to values. An exception raised by the
  source is the \<^term>\<open>Inl\<close> branch of a sum.
\<close>

subsection \<open>Shared values\<close>

datatype py_error =
    KeyError string
  | IndexError
  | ValueError string
  | LibraryError string

datatype pyval =
    PyStr string
  | PyFloat real
  | PyInt int
  | PyBool bool
  | PyDict "(string \<times> real) list"

type_synonym pydict = "string \<rightharpoonup> pyval"

subsection \<open>The recommendation engine (recommender.py)\<close>

datatype RecommendationType = MAINTAIN | SCALE_DOWN | RECOVERY | ANCHORING | CELEBRATION

text \<open>
  A reason is a string of the source; where the source formats a metric into it with an
  f-string, the reason keeps the text before the metric, the number that is formatted, and
  the text after it (the rendering of the number to decimal digits is not modelled).
\<close>

datatype reason =
    Plain string
  | Cited string real string

record EngineResponse =
  user_id :: string
  date_str :: string
  adherence_probability :: real
  burnout_risk_score :: real
  resp_is_anomaly :: bool
  recommendation_type :: RecommendationType
  message_title :: string
  message_body :: string
  suggested_action :: string
  why_this_recommendation :: "reason list"

text \<open>
  The thresholds 1.2, 0.4, 0.5 and 0.7 are the decimal numbers. The source compares with
  the nearest doubles; for every input that is itself a double the two comparisons agree
  (no double lies strictly between a decimal threshold and its nearest double).

  \<^verbatim>\<open>d.get(key, default)\<close> of a Python dictionary.
\<close>

definition dict_get :: "(string \<rightharpoonup> 'a) \<Rightarrow> string \<Rightarrow> 'a \<Rightarrow> 'a" where
  "dict_get d k dflt = (case d k of None \<Rightarrow> dflt | Some v \<Rightarrow> v)"

definition generate_recommendation ::
  "string \<Rightarrow> string \<Rightarrow> real \<Rightarrow> real \<Rightarrow> bool \<Rightarrow> (string \<rightharpoonup> real) \<Rightarrow> EngineResponse" where
  "generate_recommendation uid dstr adherence_prob burnout_risk is_anomaly recent_features =
    (let current_sleep = dict_get recent_features ''sleep_duration_minutes'' 480;
         resp = (\<lambda>rec_type title body action reasons.
           \<lparr> user_id = uid, date_str = dstr,
             adherence_probability = adherence_prob,
             burnout_risk_score = burnout_risk,
             resp_is_anomaly = is_anomaly,
             recommendation_type = rec_type,
             message_title = title, message_body = body,
             suggested_action = action,
             why_this_recommendation = reasons \<rparr>)
     in
     if current_sleep < 180 then
       resp RECOVERY ''Sleep First, Train Later''
         ''You got less than 3 hours of sleep. Training now is counter-productive and dangerous.''
         ''Skip the workout. Go get a nap or go to bed early tonight.''
         [Cited ''Severe sleep deprivation detected ('' (current_sleep / 60) '' hours).'',
          Plain ''Cognitive and physical recovery is severely compromised.'']
     else if is_anomaly then
       resp RECOVERY ''Check-in time''
         ''We noticed some unusual patterns today. Everything okay?''
         ''Log a quick mood check-in instead of a workout.''
         [Plain ''Behavioral anomaly detected (isolation forest).'']
     else if burnout_risk > 1.2 then
       resp SCALE_DOWN ''Protect your energy''
         ''Your stats suggest you're pushing hard. Let's avoid burnout.''
         ''Do 50% of your planned duration today.''
         [Cited ''High burnout risk score ('' burnout_risk '').'',
          Plain ''Recent effort ratio is unsustainable.'']
     else if adherence_prob < 0.4 then
       (let missed_days = dict_get recent_features ''consecutive_misses'' 0 in
        resp ANCHORING
         (if missed_days \<le> 7 then ''Don't break the chain'' else ''Everything okay?'')
         (if missed_days \<le> 7
          then ''You missed a few days, but it happens. The key is to get back to it immediately to keep your habit strong.''
          else ''We noticed you've been away for a bit. Don't worry - failures are just data points on the road to success. We can get back on the wagon today.'')
         ''Start small: Just do 5 minutes of movement to break the seal.''
         [Cited ''Low adherence probability ('' adherence_prob '').'',
          Plain ''Focus is on re-establishing the habit loop, not intensity.''])
     else if adherence_prob < 0.5 then
       resp MAINTAIN ''Time to Shift Gears''
         ''You've missed a few days, but momentum is waiting for you. Try pushing a little harder today to get back on track.''
         ''Commit to your standard session today - you can do this.''
         [Cited ''Adherence probability is borderline ('' adherence_prob '').'',
          Plain ''A strong session today will reverse the negative trend.'']
     else if adherence_prob \<le> 0.7 then
       resp MAINTAIN ''Good Work''
         ''You are doing well! Hang in there and keep the momentum building.''
         ''Stick to the plan. Consistency is compounding.''
         [Cited ''Stable adherence probability ('' adherence_prob '').'']
     else
       resp MAINTAIN ''Keep It Up!''
         ''Excellent dedication. You're consistently showing up and the results show.''
         ''Use this momentum to your advantage - great day for a PR or just enjoying the flow.''
         [Cited ''High adherence probability ('' adherence_prob '').''])"


text \<open>
  The three message texts that hold an em dash in the source are written here with
  \<^verbatim>\<open> - \<close> in its place; no property below depends on them.
\<close>

definition row_rested :: "string \<rightharpoonup> real" where
  "row_rested = [''sleep_duration_minutes'' \<mapsto> 420, ''consecutive_misses'' \<mapsto> 9]"

definition row_sleepless :: "string \<rightharpoonup> real" where
  "row_sleepless = [''sleep_duration_minutes'' \<mapsto> 120, ''consecutive_misses'' \<mapsto> 2]"

definition row_no_sleep_entry :: "string \<rightharpoonup> real" where
  "row_no_sleep_entry = [''consecutive_misses'' \<mapsto> 2]"


subsection \<open>Daily records and the feature table (schemas.py, features.py)\<close>

text \<open>
  A double that a computation of pandas or numpy returns: a finite number, an infinity or
  \<^verbatim>\<open>NaN\<close>. The fields of a daily record are finite numbers.
\<close>

datatype fval = Fin real | PInf | NInf | NaN

text \<open>
  \<^verbatim>\<open>DailyBehavior\<close>, with the fields the pipeline reads. The date is the day number of
  Python's \<^verbatim>\<open>date.toordinal()\<close> (day 1 is Monday, 1 January of year 1), so a difference of
  dates is a number of days. The other fields of the pydantic model (start times, scores,
  labels) are carried through the frame unread and are left out.
\<close>

record DailyBehavior =
  date :: int
  total_steps :: int
  exercise_minutes :: real
  exercise_done :: bool
  sleep_duration_minutes :: real
  data_missing_flag :: bool

text \<open>One row of the frame returned by \<^verbatim>\<open>enhance\<close>: the record's columns and the derived ones.\<close>

record FeatureRow = DailyBehavior +
  prev_steps :: real
  prev_sleep_dur :: real
  prev_exercise_done :: real
  steps_7d_avg :: fval
  sleep_7d_avg :: fval
  sleep_variance_7d :: fval
  steps_variance_7d :: fval
  sleep_consistency_score :: fval
  rolling_misses_3d :: real
  consecutive_misses :: int
  is_recovery_period :: int
  is_streak_break :: int
  days_since_workout :: int
  day_of_week :: int
  is_weekend :: int
  steps_30d_avg :: fval
  effort_ratio :: fval

subsubsection \<open>Column operations of pandas\<close>

text \<open>
  A column is a list, one entry per row; a column that is computed exactly and may
  hold \<^verbatim>\<open>NaN\<close> is a list of \<^typ>\<open>real option\<close>, a column of computed doubles a list of
  \<^typ>\<open>fval\<close>.

  \<^verbatim>\<open>s.shift(1)\<close>: every entry moves down one row, the first row gets \<^verbatim>\<open>NaN\<close>.
\<close>

definition shift1 :: "'a list \<Rightarrow> 'a option list" where
  "shift1 xs = (case xs of [] \<Rightarrow> [] | _ # _ \<Rightarrow> None # map Some (butlast xs))"

text \<open>
  \<^verbatim>\<open>s != s.shift()\<close> on a column without \<^verbatim>\<open>NaN\<close>: the first row compares with \<^verbatim>\<open>NaN\<close> and is
  \<^verbatim>\<open>True\<close>, every other row is compared with the row before it. The argument \<open>p\<close> is the
  entry before the first row (\<^term>\<open>None\<close> for the frame's first row).
\<close>

fun neq_prev :: "'a option \<Rightarrow> 'a list \<Rightarrow> bool list" where
  "neq_prev p [] = []"
| "neq_prev p (x # xs) = (p \<noteq> Some x) # neq_prev (Some x) xs"

text \<open>\<^verbatim>\<open>s.cumsum()\<close>, from a running total \<open>a\<close> (0 for a whole column).\<close>

fun cumsum_from :: "int \<Rightarrow> int list \<Rightarrow> int list" where
  "cumsum_from a [] = []"
| "cumsum_from a (x # xs) = (a + x) # cumsum_from (a + x) xs"

text \<open>
  \<^verbatim>\<open>s.groupby(g).cumsum()\<close> on rows \<open>(g, v)\<close>: a running total per group key, each row
  getting the total of its own group up to and including itself.
\<close>

fun groupby_cumsum :: "(int \<Rightarrow> int) \<Rightarrow> (int \<times> int) list \<Rightarrow> int list" where
  "groupby_cumsum acc [] = []"
| "groupby_cumsum acc ((g, v) # rest) =
     (let s = acc g + v in s # groupby_cumsum (acc(g := s)) rest)"

text \<open>
  \<^verbatim>\<open>s.rolling(window=w, min_periods=mp).agg()\<close> on a column without \<^verbatim>\<open>NaN\<close>: row \<open>i\<close> sees the
  last \<open>w\<close> rows up to and including \<open>i\<close>, and is \<^verbatim>\<open>NaN\<close> when fewer than \<open>mp\<close> rows are there.
  \<^term>\<open>rolling\<close> aggregates the window exactly; it is used for the sum of at most three
  miss indicators, which doubles represent exactly.
\<close>

definition window :: "nat \<Rightarrow> 'a list \<Rightarrow> nat \<Rightarrow> 'a list" where
  "window w xs i = drop (Suc i - w) (take (Suc i) xs)"

definition rolling :: "nat \<Rightarrow> nat \<Rightarrow> (real list \<Rightarrow> real) \<Rightarrow> real list \<Rightarrow> real option list" where
  "rolling w mp agg xs =
     map (\<lambda>i. if mp \<le> length (window w xs i) then Some (agg (window w xs i)) else None)
       [0..<length xs]"

text \<open>
  pandas computes a rolling mean and a rolling standard deviation by a running recurrence
  in double precision: a row entering the window is added, a row leaving it is removed,
  and the rounding residue of rows that have left can stay in the running sums. The value
  at a row is thus a function of the column up to and including that row, not of the
  window alone, and is not the exact statistic of the window. These recurrences, double
  addition and division (with rounding and overflow) and the mean of a column are
  operations of the libraries: they are the fields of a record that \<^verbatim>\<open>enhance\<close> takes as its
  first argument. \<open>roll_mean pd w xs\<close> is the value of \<^verbatim>\<open>rolling(window=w).mean()\<close> at the
  last row of the column \<open>xs\<close>.
\<close>

record numerics =
  roll_mean :: "nat \<Rightarrow> real list \<Rightarrow> fval"
  roll_std :: "nat \<Rightarrow> real list \<Rightarrow> fval"
  f_add :: "fval \<Rightarrow> fval \<Rightarrow> fval"
  f_div :: "fval \<Rightarrow> fval \<Rightarrow> fval"
  series_mean :: "fval list \<Rightarrow> fval"

text \<open>
  \<^verbatim>\<open>s.rolling(window=w, min_periods=mp)\<close> with a statistic of the library: \<^verbatim>\<open>NaN\<close> when
  fewer than \<open>mp\<close> rows are in the window (a count, exact), else the library's value for
  the column up to row \<open>i\<close>.
\<close>

definition rolling_stat :: "nat \<Rightarrow> nat \<Rightarrow> (real list \<Rightarrow> fval) \<Rightarrow> real list \<Rightarrow> fval list" where
  "rolling_stat w mp stat xs =
     map (\<lambda>i. if mp \<le> length (window w xs i) then stat (take (Suc i) xs) else NaN)
       [0..<length xs]"

text \<open>Arithmetic on doubles: a \<^verbatim>\<open>NaN\<close> operand gives \<^verbatim>\<open>NaN\<close>, else the library's operation.\<close>

definition nan_op :: "(fval \<Rightarrow> fval \<Rightarrow> fval) \<Rightarrow> fval \<Rightarrow> fval \<Rightarrow> fval" where
  "nan_op op a b = (if a = NaN \<or> b = NaN then NaN else op a b)"

text \<open>
  \<^verbatim>\<open>df.fillna(0)\<close> on one entry: of a column computed exactly (\<^term>\<open>None\<close> is \<^verbatim>\<open>NaN\<close>), and
  of a column of doubles.
\<close>

definition fillna0 :: "real option \<Rightarrow> real" where
  "fillna0 v = (case v of None \<Rightarrow> 0 | Some x \<Rightarrow> x)"

definition fillna0f :: "fval \<Rightarrow> fval" where
  "fillna0f v = (if v = NaN then Fin 0 else v)"

definition epsilon :: real where
  "epsilon = 1 / 1000000"

text \<open>
  \<^verbatim>\<open>1 / (1 + sd / (avg + epsilon))\<close> in the arithmetic of the library; \<^term>\<open>Fin epsilon\<close>
  stands for the double of the literal \<^verbatim>\<open>1e-6\<close>.
\<close>

definition consistency_score :: "numerics \<Rightarrow> fval \<Rightarrow> fval \<Rightarrow> fval" where
  "consistency_score pd sd avg =
     nan_op (f_div pd) (Fin 1)
       (nan_op (f_add pd) (Fin 1)
          (nan_op (f_div pd) sd (nan_op (f_add pd) avg (Fin epsilon))))"

subsubsection \<open>The derived columns, in the order of \<^verbatim>\<open>enhance\<close>\<close>

text \<open>
  Each column is a function of the frame \<open>df\<close> after \<^verbatim>\<open>sort_values('date')\<close>; the columns
  that hold computed doubles also depend on the numeric operations \<open>pd\<close>.
\<close>

definition col_steps :: "DailyBehavior list \<Rightarrow> real list" where
  "col_steps df = map (\<lambda>r. real_of_int (total_steps r)) df"

definition col_sleep :: "DailyBehavior list \<Rightarrow> real list" where
  "col_sleep df = map sleep_duration_minutes df"

definition col_prev_steps :: "DailyBehavior list \<Rightarrow> real option list" where
  "col_prev_steps df = shift1 (col_steps df)"

definition col_prev_sleep_dur :: "DailyBehavior list \<Rightarrow> real option list" where
  "col_prev_sleep_dur df = shift1 (col_sleep df)"

definition col_prev_exercise_done :: "DailyBehavior list \<Rightarrow> real option list" where
  "col_prev_exercise_done df =
     map (map_option (\<lambda>b. if b then 1 else 0)) (shift1 (map exercise_done df))"

definition col_steps_7d_avg :: "numerics \<Rightarrow> DailyBehavior list \<Rightarrow> fval list" where
  "col_steps_7d_avg pd df = rolling_stat 7 1 (roll_mean pd 7) (col_steps df)"

definition col_sleep_7d_avg :: "numerics \<Rightarrow> DailyBehavior list \<Rightarrow> fval list" where
  "col_sleep_7d_avg pd df = rolling_stat 7 1 (roll_mean pd 7) (col_sleep df)"

definition col_sleep_variance_7d :: "numerics \<Rightarrow> DailyBehavior list \<Rightarrow> fval list" where
  "col_sleep_variance_7d pd df = rolling_stat 7 3 (roll_std pd 7) (col_sleep df)"

definition col_steps_variance_7d :: "numerics \<Rightarrow> DailyBehavior list \<Rightarrow> fval list" where
  "col_steps_variance_7d pd df = rolling_stat 7 3 (roll_std pd 7) (col_steps df)"

definition col_sleep_consistency_score :: "numerics \<Rightarrow> DailyBehavior list \<Rightarrow> fval list" where
  "col_sleep_consistency_score pd df =
     map (\<lambda>(sd, avg). consistency_score pd sd avg)
       (zip (col_sleep_variance_7d pd df) (col_sleep_7d_avg pd df))"

definition col_rolling_misses_3d :: "DailyBehavior list \<Rightarrow> real option list" where
  "col_rolling_misses_3d df =
     rolling 3 3 sum_list
       (map (\<lambda>r. if data_missing_flag r \<or> exercise_done r = False then 1 else 0) df)"

definition col_is_miss :: "DailyBehavior list \<Rightarrow> int list" where
  "col_is_miss df = map (\<lambda>r. if \<not> exercise_done r then 1 else 0) df"

definition col_group_id :: "DailyBehavior list \<Rightarrow> int list" where
  "col_group_id df =
     cumsum_from 0 (map (\<lambda>b. if b then 1 else 0) (neq_prev None (col_is_miss df)))"

definition col_consecutive_misses :: "DailyBehavior list \<Rightarrow> int list" where
  "col_consecutive_misses df =
     groupby_cumsum (\<lambda>_. 0) (zip (col_group_id df) (col_is_miss df))"

definition col_is_recovery_period :: "DailyBehavior list \<Rightarrow> int list" where
  "col_is_recovery_period df =
     map (\<lambda>c. if c > 0 \<and> c < 3 then 1 else 0) (col_consecutive_misses df)"

definition col_is_streak_break :: "DailyBehavior list \<Rightarrow> int list" where
  "col_is_streak_break df = map (\<lambda>c. if c > 4 then 1 else 0) (col_consecutive_misses df)"

definition col_days_since_workout :: "DailyBehavior list \<Rightarrow> int list" where
  "col_days_since_workout df =
     map (\<lambda>(c, b). c * b) (zip (col_consecutive_misses df) (col_is_streak_break df))"

text \<open>\<^verbatim>\<open>dayofweek\<close>: 0 is Monday; day 1 of the ordinal count is a Monday.\<close>

definition col_day_of_week :: "DailyBehavior list \<Rightarrow> int list" where
  "col_day_of_week df = map (\<lambda>r. (date r + 6) mod 7) df"

definition col_is_weekend :: "DailyBehavior list \<Rightarrow> int list" where
  "col_is_weekend df = map (\<lambda>d. if d = 5 \<or> d = 6 then 1 else 0) (col_day_of_week df)"

definition col_steps_30d_avg :: "numerics \<Rightarrow> DailyBehavior list \<Rightarrow> fval list" where
  "col_steps_30d_avg pd df = rolling_stat 30 7 (roll_mean pd 30) (col_steps df)"

definition col_effort_ratio :: "numerics \<Rightarrow> DailyBehavior list \<Rightarrow> fval list" where
  "col_effort_ratio pd df =
     map (\<lambda>(s7, s30). nan_op (f_div pd) s7 (nan_op (f_add pd) s30 (Fin epsilon)))
       (zip (col_steps_7d_avg pd df) (col_steps_30d_avg pd df))"

text \<open>
  The frame after \<^verbatim>\<open>fillna(0)\<close>, row \<open>i\<close> taking entry \<open>i\<close> of every column. All columns
  have the length of \<open>df\<close>.
\<close>

definition enhance_row :: "numerics \<Rightarrow> DailyBehavior list \<Rightarrow> nat \<Rightarrow> FeatureRow" where
  "enhance_row pd df i =
     \<lparr> date = date (df ! i),
       total_steps = total_steps (df ! i),
       exercise_minutes = exercise_minutes (df ! i),
       exercise_done = exercise_done (df ! i),
       sleep_duration_minutes = sleep_duration_minutes (df ! i),
       data_missing_flag = data_missing_flag (df ! i),
       prev_steps = fillna0 (col_prev_steps df ! i),
       prev_sleep_dur = fillna0 (col_prev_sleep_dur df ! i),
       prev_exercise_done = fillna0 (col_prev_exercise_done df ! i),
       steps_7d_avg = fillna0f (col_steps_7d_avg pd df ! i),
       sleep_7d_avg = fillna0f (col_sleep_7d_avg pd df ! i),
       sleep_variance_7d = fillna0f (col_sleep_variance_7d pd df ! i),
       steps_variance_7d = fillna0f (col_steps_variance_7d pd df ! i),
       sleep_consistency_score = fillna0f (col_sleep_consistency_score pd df ! i),
       rolling_misses_3d = fillna0 (col_rolling_misses_3d df ! i),
       consecutive_misses = col_consecutive_misses df ! i,
       is_recovery_period = col_is_recovery_period df ! i,
       is_streak_break = col_is_streak_break df ! i,
       days_since_workout = col_days_since_workout df ! i,
       day_of_week = col_day_of_week df ! i,
       is_weekend = col_is_weekend df ! i,
       steps_30d_avg = fillna0f (col_steps_30d_avg pd df ! i),
       effort_ratio = fillna0f (col_effort_ratio pd df ! i) \<rparr>"

definition enhance_sorted :: "numerics \<Rightarrow> DailyBehavior list \<Rightarrow> FeatureRow list" where
  "enhance_sorted pd df = map (enhance_row pd df) [0..<length df]"

text \<open>
  \<^verbatim>\<open>FeatureEngineer.enhance\<close>. An empty input gives the empty frame. \<^verbatim>\<open>sort_values('date')\<close>
  is a sort by date; for records of equal date this model keeps their input order.
\<close>

definition enhance :: "numerics \<Rightarrow> DailyBehavior list \<Rightarrow> FeatureRow list" where
  "enhance pd daily_data = enhance_sorted pd (sort_key date daily_data)"

subsection \<open>The fitting libraries\<close>

text \<open>
  scikit-learn and lifelines are not part of the repository: their operations are the
  fields of a record that every model function takes as its first argument, together
  with the numeric operations of pandas. An operation that can raise returns a sum.
  \<open>'sc\<close>, \<open>'lr\<close>, \<open>'f\<close> and \<open>'cph\<close> are the fitted states of the standard scaler, the
  logistic regression, the isolation forest and the Cox model. Transforming and
  predicting work row by row. Reading \<^verbatim>\<open>concordance_index_\<close> of a fitted Cox model is a
  computation of lifelines that can raise.
\<close>

record ('sc, 'lr, 'f, 'cph) libraries =
  pandas :: numerics
  scaler_fit :: "fval list list \<Rightarrow> py_error + 'sc"
  scaler_transform :: "'sc \<Rightarrow> fval list \<Rightarrow> fval list"
  logreg_fit :: "fval list list \<Rightarrow> int list \<Rightarrow> py_error + 'lr"
  logreg_predict :: "'lr \<Rightarrow> fval list \<Rightarrow> int"
  logreg_predict_proba :: "'lr \<Rightarrow> fval list \<Rightarrow> real"
  logreg_coef :: "'lr \<Rightarrow> real list"
  accuracy_score :: "int list \<Rightarrow> int list \<Rightarrow> real"
  roc_auc_score :: "int list \<Rightarrow> real list \<Rightarrow> py_error + real"
  iforest_fit :: "fval list list \<Rightarrow> py_error + 'f"
  iforest_predict :: "'f \<Rightarrow> fval list \<Rightarrow> int"
  iforest_decision_function :: "'f \<Rightarrow> fval list \<Rightarrow> real"
  cph_fit :: "(int \<times> int \<times> fval list) list \<Rightarrow> py_error + 'cph"
  cph_concordance_index :: "'cph \<Rightarrow> py_error + real"
  cph_params :: "'cph \<Rightarrow> (string \<times> real) list"
  cph_predict_partial_hazard :: "'cph \<Rightarrow> (string \<rightharpoonup> real) \<Rightarrow> py_error + real"

text \<open>\<^verbatim>\<open>str(e)\<close> of a caught exception: the text it carries.\<close>

fun error_str :: "py_error \<Rightarrow> string" where
  "error_str (KeyError k) = k"
| "error_str IndexError = ''index out of bounds''"
| "error_str (ValueError m) = m"
| "error_str (LibraryError m) = m"

text \<open>
  The trained flag that the three model classes share; each class extends it with its
  own fitted objects.
\<close>

record model_state =
  is_trained :: bool

subsection \<open>The adherence model (adherence.py)\<close>

record ('sc, 'lr) AdherenceModel = model_state +
  adh_scaler :: "'sc option"
  adh_model :: "'lr option"

definition new_AdherenceModel :: "('sc, 'lr) AdherenceModel" where
  "new_AdherenceModel = \<lparr> is_trained = False, adh_scaler = None, adh_model = None \<rparr>"

definition feature_columns :: "string list" where
  "feature_columns =
     [''exercise_done'', ''exercise_minutes'', ''total_steps'',
      ''prev_steps'', ''prev_sleep_dur'', ''prev_exercise_done'',
      ''steps_7d_avg'', ''sleep_7d_avg'',
      ''sleep_variance_7d'', ''sleep_consistency_score'',
      ''rolling_misses_3d'', ''is_weekend'', ''effort_ratio'',
      ''is_recovery_period'', ''is_streak_break'', ''days_since_workout'']"

text \<open>\<^verbatim>\<open>row[self.feature_columns]\<close> as numbers, in the order of \<^term>\<open>feature_columns\<close>.\<close>

definition adherence_features :: "FeatureRow \<Rightarrow> fval list" where
  "adherence_features r =
     [Fin (if exercise_done r then 1 else 0), Fin (exercise_minutes r),
      Fin (real_of_int (total_steps r)),
      Fin (prev_steps r), Fin (prev_sleep_dur r), Fin (prev_exercise_done r),
      steps_7d_avg r, sleep_7d_avg r,
      sleep_variance_7d r, sleep_consistency_score r,
      Fin (rolling_misses_3d r), Fin (real_of_int (is_weekend r)), effort_ratio r,
      Fin (real_of_int (is_recovery_period r)), Fin (real_of_int (is_streak_break r)),
      Fin (real_of_int (days_since_workout r))]"

text \<open>\<^verbatim>\<open>s.shift(-1)\<close>: every entry moves up one row, the last row gets \<^verbatim>\<open>NaN\<close>.\<close>

definition shift_back :: "'a list \<Rightarrow> 'a option list" where
  "shift_back xs = (case xs of [] \<Rightarrow> [] | _ # rest \<Rightarrow> map Some rest @ [None])"

text \<open>
  \<^verbatim>\<open>AdherenceModel.prepare_data\<close>. The empty frame that \<^verbatim>\<open>enhance\<close> returns has no columns,
  so \<^verbatim>\<open>data['exercise_done']\<close> raises \<^verbatim>\<open>KeyError\<close> on it. \<^verbatim>\<open>dropna\<close> keeps the rows whose
  target is known.
\<close>

definition adherence_prepare_data :: "FeatureRow list \<Rightarrow> py_error + (fval list list \<times> int list)" where
  "adherence_prepare_data df =
     (if df = [] then Inl (KeyError ''exercise_done'')
      else
        (let target_next_day = shift_back (map exercise_done df);
             data = List.map_filter (\<lambda>(r, t). map_option (\<lambda>b. (r, b)) t) (zip df target_next_day)
         in Inr (map (\<lambda>(r, b). adherence_features r) data,
                 map (\<lambda>(r, b). if b then 1 else 0) data)))"

text \<open>
  \<^verbatim>\<open>AdherenceModel.train\<close>: the result (a dictionary, or the exception that escapes) and
  the model afterwards. \<^verbatim>\<open>int(len(X) * 0.8)\<close> is the floor of the exact product.
\<close>

definition adherence_train ::
  "('sc, 'lr, 'f, 'cph) libraries \<Rightarrow> ('sc, 'lr) AdherenceModel \<Rightarrow> FeatureRow list
     \<Rightarrow> (py_error + pydict) \<times> ('sc, 'lr) AdherenceModel" where
  "adherence_train lib self df =
     (case adherence_prepare_data df of
        Inl e \<Rightarrow> (Inl e, self)
      | Inr (X, y) \<Rightarrow>
          if length X < 10 then
            (Inr [''status'' \<mapsto> PyStr ''error'',
                  ''message'' \<mapsto> PyStr ''Not enough data to train''], self)
          else
            (let split_idx = nat \<lfloor>real (length X) * 0.8\<rfloor>;
                 X_train = take split_idx X; X_test = drop split_idx X;
                 y_train = take split_idx y; y_test = drop split_idx y
             in case scaler_fit lib X_train of
                  Inl e \<Rightarrow> (Inl e, self)
                | Inr sc \<Rightarrow>
                   (let self1 = self\<lparr>adh_scaler := Some sc\<rparr>;
                        X_train_scaled = map (scaler_transform lib sc) X_train;
                        X_test_scaled = map (scaler_transform lib sc) X_test
                    in case logreg_fit lib X_train_scaled y_train of
                         Inl e \<Rightarrow> (Inl e, self1)
                       | Inr m \<Rightarrow>
                          (let self2 = self1\<lparr>adh_model := Some m, is_trained := True\<rparr>;
                               y_pred = map (logreg_predict lib m) X_test_scaled;
                               y_proba = map (logreg_predict_proba lib m) X_test_scaled;
                               metrics = (\<lambda>auc.
                                 [''accuracy'' \<mapsto> PyFloat (accuracy_score lib y_test y_pred),
                                  ''auc'' \<mapsto> PyFloat auc,
                                  ''feature_importance'' \<mapsto>
                                     PyDict (zip feature_columns (logreg_coef lib m))])
                           in case roc_auc_score lib y_test y_proba of
                                Inr auc \<Rightarrow> (Inr (metrics auc), self2)
                              | Inl (ValueError _) \<Rightarrow> (Inr (metrics 0.5), self2)
                              | Inl e \<Rightarrow> (Inl e, self2)))))"

text \<open>
  \<^verbatim>\<open>predict_next_day_proba\<close>, for the one-row frame of a feature row. A model whose flag is
  set without fitted objects cannot arise from \<^verbatim>\<open>train\<close>; scikit-learn would raise there.
\<close>

definition predict_next_day_proba ::
  "('sc, 'lr, 'f, 'cph) libraries \<Rightarrow> ('sc, 'lr) AdherenceModel \<Rightarrow> FeatureRow \<Rightarrow> py_error + real" where
  "predict_next_day_proba lib self recent_feature_row =
     (if \<not> is_trained self then Inl (ValueError ''Model not trained yet'')
      else
        (case (adh_scaler self, adh_model self) of
           (Some sc, Some m) \<Rightarrow>
             Inr (logreg_predict_proba lib m
                    (scaler_transform lib sc (adherence_features recent_feature_row)))
         | _ \<Rightarrow> Inl (LibraryError ''not fitted'')))"

subsection \<open>The anomaly detector (anomaly.py)\<close>

record ('sc, 'f) AnomalyDetector = model_state +
  anom_scaler :: "'sc option"
  anom_model :: "'f option"

definition new_AnomalyDetector :: "('sc, 'f) AnomalyDetector" where
  "new_AnomalyDetector = \<lparr> is_trained = False, anom_scaler = None, anom_model = None \<rparr>"

definition feature_cols :: "string list" where
  "feature_cols = [''total_steps'', ''sleep_duration_minutes'', ''sleep_variance_7d'']"

definition anomaly_features :: "FeatureRow \<Rightarrow> fval list" where
  "anomaly_features r =
     [Fin (real_of_int (total_steps r)), Fin (sleep_duration_minutes r), sleep_variance_7d r]"

definition anomaly_train ::
  "('sc, 'lr, 'f, 'cph) libraries \<Rightarrow> ('sc, 'f) AnomalyDetector \<Rightarrow> FeatureRow list
     \<Rightarrow> (py_error + pydict) \<times> ('sc, 'f) AnomalyDetector" where
  "anomaly_train lib self df =
     (if length df < 14 then
        (Inr [''status'' \<mapsto> PyStr ''error'', ''message'' \<mapsto> PyStr ''Need 2 weeks data''], self)
      else
        (let X = map anomaly_features df
         in case scaler_fit lib X of
              Inl e \<Rightarrow> (Inl e, self)
            | Inr sc \<Rightarrow>
               (let self1 = self\<lparr>anom_scaler := Some sc\<rparr>;
                    X_scaled = map (scaler_transform lib sc) X
                in case iforest_fit lib X_scaled of
                     Inl e \<Rightarrow> (Inl e, self1)
                   | Inr m \<Rightarrow>
                      (let self2 = self1\<lparr>anom_model := Some m, is_trained := True\<rparr>;
                           preds = map (iforest_predict lib m) X_scaled;
                           n_anomalies = int (length (filter (\<lambda>p. p = - 1) preds))
                       in (Inr [''status'' \<mapsto> PyStr ''success'',
                                ''anomalies_detected_history'' \<mapsto> PyInt n_anomalies], self2)))))"

text \<open>
  \<^verbatim>\<open>check_anomaly\<close>, for a row read by column name (a pandas Series). A missing column is
  the \<^verbatim>\<open>KeyError\<close> that the source catches.
\<close>

definition check_anomaly ::
  "('sc, 'lr, 'f, 'cph) libraries \<Rightarrow> ('sc, 'f) AnomalyDetector \<Rightarrow> (string \<rightharpoonup> fval)
     \<Rightarrow> py_error + pydict" where
  "check_anomaly lib self day_row =
     (if \<not> is_trained self then
        Inr [''is_anomaly'' \<mapsto> PyBool False, ''score'' \<mapsto> PyFloat 0]
      else
        (case those (map day_row feature_cols) of
           None \<Rightarrow> Inr [''error'' \<mapsto> PyStr ''Missing columns'']
         | Some X \<Rightarrow>
            (case (anom_scaler self, anom_model self) of
               (Some sc, Some m) \<Rightarrow>
                 (let X_scaled = scaler_transform lib sc X;
                      pred = iforest_predict lib m X_scaled;
                      score = iforest_decision_function lib m X_scaled
                  in Inr [''is_anomaly'' \<mapsto> PyBool (pred = - 1),
                          ''severity_score'' \<mapsto> PyFloat score])
             | _ \<Rightarrow> Inl (LibraryError ''not fitted''))))"

subsection \<open>The burnout risk model and its episode segmentation (burnout.py)\<close>

record Episode =
  duration :: int
  event :: int
  avg_sleep_consistency :: fval
  avg_effort_ratio :: fval
  avg_sleep_var :: fval
  initial_motivation :: fval

record 'cph BurnoutRiskModel = model_state +
  dropout_threshold :: int
  cph :: "'cph option"

definition new_BurnoutRiskModel :: "int \<Rightarrow> 'cph BurnoutRiskModel" where
  "new_BurnoutRiskModel dropout_threshold_days =
     \<lparr> is_trained = False, dropout_threshold = dropout_threshold_days, cph = None \<rparr>"

text \<open>\<^verbatim>\<open>df.loc[start:stop]\<close> on the sorted date index: the rows dated from start to stop.\<close>

definition loc_slice :: "FeatureRow list \<Rightarrow> int \<Rightarrow> int \<Rightarrow> FeatureRow list" where
  "loc_slice df start stop = filter (\<lambda>r. start \<le> date r \<and> date r \<le> stop) df"

text \<open>
  \<^verbatim>\<open>_aggregate_period\<close>; \<^verbatim>\<open>Series.mean()\<close> is the library's mean of a column of doubles.
\<close>

definition aggregate_period ::
  "numerics \<Rightarrow> FeatureRow list \<Rightarrow> int \<Rightarrow> int \<Rightarrow> int \<Rightarrow> Episode option" where
  "aggregate_period pd df start stop ev =
     (let subset = loc_slice df start stop
      in if length subset < 3 then None
         else Some \<lparr> duration = stop - start,
                     event = ev,
                     avg_sleep_consistency =
                       series_mean pd (map sleep_consistency_score subset),
                     avg_effort_ratio = series_mean pd (map effort_ratio subset),
                     avg_sleep_var = series_mean pd (map sleep_variance_7d subset),
                     initial_motivation =
                       series_mean pd (map (\<lambda>r. Fin (exercise_minutes r)) (take 3 subset)) \<rparr>)"

text \<open>
  \<^verbatim>\<open>(df['exercise_done'] != df['exercise_done'].shift()).cumsum()\<close>: the block number of
  every row.
\<close>

definition miss_groups :: "FeatureRow list \<Rightarrow> int list" where
  "miss_groups df =
     cumsum_from 0 (map (\<lambda>b. if b then 1 else 0) (neq_prev None (map exercise_done df)))"

text \<open>
  Iterating over \<^verbatim>\<open>rows.groupby(key)\<close>: one group per key, the keys in ascending order,
  the rows of a group in frame order. No group is empty.
\<close>

definition groupby_sorted :: "('a \<Rightarrow> int) \<Rightarrow> 'a list \<Rightarrow> 'a list list" where
  "groupby_sorted key xs =
     map (\<lambda>k. filter (\<lambda>x. key x = k) xs) (remdups_adj (sort (map key xs)))"

definition miss_blocks :: "FeatureRow list \<Rightarrow> (int \<times> FeatureRow) list list" where
  "miss_blocks df =
     groupby_sorted fst (filter (\<lambda>(g, r). exercise_done r = False) (zip (miss_groups df) df))"

definition dropout_dates :: "int \<Rightarrow> FeatureRow list \<Rightarrow> int list" where
  "dropout_dates thr df =
     map (\<lambda>grp. date (snd (hd grp)))
       (filter (\<lambda>grp. int (length grp) \<ge> thr) (miss_blocks df))"

text \<open>
  \<^verbatim>\<open>future[future['exercise_done'] == True].first_valid_index()\<close> with
  \<^verbatim>\<open>future = df[df.index > death_date]\<close>.
\<close>

definition next_success :: "FeatureRow list \<Rightarrow> int \<Rightarrow> int option" where
  "next_success df death_date =
     (case filter (\<lambda>r. exercise_done r = True) (filter (\<lambda>r. date r > death_date) df) of
        [] \<Rightarrow> None
      | r # _ \<Rightarrow> Some (date r))"

text \<open>
  The \<^verbatim>\<open>for death_date in dates_of_interest\<close> loop. It returns the calls
  \<^verbatim>\<open>_aggregate_period(df, start, stop, event)\<close> it makes, as triples in call order, and
  \<^verbatim>\<open>current_start\<close> after the loop (\<^term>\<open>None\<close> after the \<^verbatim>\<open>break\<close>).
\<close>

fun walk_deaths :: "FeatureRow list \<Rightarrow> int \<Rightarrow> int list \<Rightarrow> (int \<times> int \<times> int) list \<times> int option" where
  "walk_deaths df current_start [] = ([], Some current_start)"
| "walk_deaths df current_start (death_date # rest) =
     (if death_date > current_start then
        (case next_success df death_date of
           Some next_s \<Rightarrow>
             (let (ps, c) = walk_deaths df next_s rest
              in ((current_start, death_date, 1) # ps, c))
         | None \<Rightarrow> ([(current_start, death_date, 1)], None))
      else walk_deaths df current_start rest)"

text \<open>
  All calls of \<^verbatim>\<open>_aggregate_period\<close> that \<^verbatim>\<open>prepare_data\<close> makes on a sorted frame that is
  not empty, in call order.
\<close>

definition life_periods :: "int \<Rightarrow> FeatureRow list \<Rightarrow> (int \<times> int \<times> int) list" where
  "life_periods thr df =
     (let current_start = date (hd df);
          dates_of_interest = sort (dropout_dates thr df)
      in if dates_of_interest = [] then [(current_start, date (last df), 0)]
         else
           (let (ps, c) = walk_deaths df current_start dates_of_interest
            in ps @ (case c of
                       Some cs \<Rightarrow> if cs \<le> date (last df) then [(cs, date (last df), 0)] else []
                     | None \<Rightarrow> [])))"

text \<open>
  \<^verbatim>\<open>BurnoutRiskModel.prepare_data\<close>: the lives, one per call of \<^verbatim>\<open>_aggregate_period\<close>
  that did not return \<^verbatim>\<open>None\<close>. On the empty frame \<^verbatim>\<open>df['exercise_done']\<close> raises
  \<^verbatim>\<open>KeyError\<close> (and \<^verbatim>\<open>df.index[0]\<close> would raise on an empty frame with columns).
\<close>

definition burnout_prepare_data ::
  "numerics \<Rightarrow> int \<Rightarrow> FeatureRow list \<Rightarrow> py_error + Episode list" where
  "burnout_prepare_data pd thr df0 =
     (let df = sort_key date df0
      in if df = [] then Inl (KeyError ''exercise_done'')
         else Inr (List.map_filter (\<lambda>(s, e, ev). aggregate_period pd df s e ev)
                     (life_periods thr df)))"

text \<open>The columns of the survival frame handed to lifelines: duration, event, covariates.\<close>

definition survival_row :: "Episode \<Rightarrow> int \<times> int \<times> fval list" where
  "survival_row ep =
     (duration ep, event ep,
      [avg_sleep_consistency ep, avg_effort_ratio ep, avg_sleep_var ep, initial_motivation ep])"

text \<open>
  \<^verbatim>\<open>BurnoutRiskModel.train\<close>. Everything inside the \<^verbatim>\<open>try\<close> that raises ends in the
  \<^verbatim>\<open>except\<close> branch; the flag is set between the fit and the reading of the metrics.
\<close>

definition burnout_train ::
  "('sc, 'lr, 'f, 'cph) libraries \<Rightarrow> 'cph BurnoutRiskModel \<Rightarrow> FeatureRow list
     \<Rightarrow> (py_error + pydict) \<times> 'cph BurnoutRiskModel" where
  "burnout_train lib self df =
     (case burnout_prepare_data (pandas lib) (dropout_threshold self) df of
        Inl e \<Rightarrow> (Inl e, self)
      | Inr survival_df \<Rightarrow>
          if length survival_df < 2 then
            (Inr [''status'' \<mapsto> PyStr ''warning'',
                  ''message'' \<mapsto> PyStr ''Not enough streaks to train survival model''], self)
          else
            (case cph_fit lib (map survival_row survival_df) of
               Inl e \<Rightarrow>
                 (Inr [''status'' \<mapsto> PyStr ''error'', ''message'' \<mapsto> PyStr (error_str e)], self)
             | Inr fitted \<Rightarrow>
                (let self1 = self\<lparr>cph := Some fitted, is_trained := True\<rparr>
                 in case cph_concordance_index lib fitted of
                      Inl e \<Rightarrow>
                        (Inr [''status'' \<mapsto> PyStr ''error'',
                              ''message'' \<mapsto> PyStr (error_str e)], self1)
                    | Inr c \<Rightarrow>
                        (Inr [''status'' \<mapsto> PyStr ''success'',
                              ''concordance'' \<mapsto> PyFloat c,
                              ''coefficients'' \<mapsto> PyDict (cph_params lib fitted)], self1))))"

definition predict_current_risk ::
  "('sc, 'lr, 'f, 'cph) libraries \<Rightarrow> 'cph BurnoutRiskModel \<Rightarrow> (string \<rightharpoonup> real)
     \<Rightarrow> py_error + real" where
  "predict_current_risk lib self recent_streak_features =
     (if \<not> is_trained self then Inr 0.5
      else
        (case cph self of
           Some fitted \<Rightarrow> cph_predict_partial_hazard lib fitted recent_streak_features
         | None \<Rightarrow> Inl (LibraryError ''not fitted'')))"

subsection \<open>The properties in the words of the specification\<close>

text \<open>
  The run length of consecutive days satisfying \<open>P\<close> that ends at row \<open>i\<close>: the number of
  rows, counted backwards from row \<open>i\<close>, before the first row that does not satisfy \<open>P\<close>.
\<close>

definition run_length_ending :: "('a \<Rightarrow> bool) \<Rightarrow> 'a list \<Rightarrow> nat \<Rightarrow> nat" where
  "run_length_ending P rows i = length (takeWhile P (rev (take (Suc i) rows)))"

text \<open>A miss day as the specification defines it, and as \<^verbatim>\<open>consecutive_misses\<close> counts it.\<close>

definition miss_day_spec :: "'a DailyBehavior_scheme \<Rightarrow> bool" where
  "miss_day_spec r = (data_missing_flag r \<or> \<not> exercise_done r)"

definition miss_day :: "'a DailyBehavior_scheme \<Rightarrow> bool" where
  "miss_day r = (\<not> exercise_done r)"

text \<open>
  The streak counter as a state machine over the miss indicator (the fold of the
  specification's design notes): the count so far is the state.
\<close>

fun run_fold :: "int \<Rightarrow> bool list \<Rightarrow> int list" where
  "run_fold c [] = []"
| "run_fold c (m # ms) = (let c' = (if m then c + 1 else 0) in c' # run_fold c' ms)"

subsubsection \<open>Episode segmentation in the words of the specification\<close>

text \<open>
  The maximal runs of consecutive rows with equal key, in frame order
  (the contiguous equal-value runs of the specification).
\<close>

function runs_by :: "('a \<Rightarrow> 'k) \<Rightarrow> 'a list \<Rightarrow> 'a list list" where
  "runs_by key [] = []"
| "runs_by key (x # xs) =
     (x # takeWhile (\<lambda>y. key y = key x) xs) # runs_by key (dropWhile (\<lambda>y. key y = key x) xs)"
  by pat_completeness auto
termination
  by (relation "measure (\<lambda>(key, xs). length xs)") (auto simp: length_dropWhile_le less_Suc_eq_le)

text \<open>
  A miss block is a run of rows with \<^verbatim>\<open>exercise_done = false\<close>; it qualifies as a dropout
  event iff its length is at least the threshold, and its death date is its first day.
\<close>

definition spec_miss_blocks :: "FeatureRow list \<Rightarrow> FeatureRow list list" where
  "spec_miss_blocks df = filter (\<lambda>b. \<not> exercise_done (hd b)) (runs_by exercise_done df)"

definition spec_death_dates :: "int \<Rightarrow> FeatureRow list \<Rightarrow> int list" where
  "spec_death_dates thr df =
     map (\<lambda>b. date (hd b)) (filter (\<lambda>b. int (length b) \<ge> thr) (spec_miss_blocks df))"

text \<open>
  The first day after \<open>d\<close> with \<^verbatim>\<open>exercise_done = true\<close>, on a frame in date order.
\<close>

definition first_active_after :: "FeatureRow list \<Rightarrow> int \<Rightarrow> int option" where
  "first_active_after df d = map_option date (find (\<lambda>r. d < date r \<and> exercise_done r) df)"


text \<open>The number of rows of the frame dated from \<open>s\<close> to \<open>e\<close>.\<close>

definition rows_between :: "FeatureRow list \<Rightarrow> int \<Rightarrow> int \<Rightarrow> nat" where
  "rows_between df s e = length (filter (\<lambda>r. s \<le> date r \<and> date r \<le> e) df)"


text \<open>
  The segmentation that the source implements, in the same words: a death date later
  than the current start closes the span from that start as a died span (event 1),
  and, whether or not that span has the 3 rows of an episode, the next episode starts at
  the first later day with \<^verbatim>\<open>exercise_done = true\<close>, the walk stopping without a trailing
  span when there is none; a death date not later than the current start is skipped and
  leaves the start where it is. After the last death date (and when there is none) the
  open span to the end of the table is censored (event 0).
\<close>

fun amended_spans :: "FeatureRow list \<Rightarrow> int \<Rightarrow> int list \<Rightarrow> (int \<times> int \<times> int) list" where
  "amended_spans df start [] = [(start, date (last df), 0)]"
| "amended_spans df start (d # ds) =
     (if d \<le> start then amended_spans df start ds
      else (start, d, 1) #
             (case first_active_after df d of
                None \<Rightarrow> []
              | Some restart \<Rightarrow> amended_spans df restart ds))"

text \<open>
  The episodes of a list of spans, as pairs (duration, event): a span becomes an episode
  provided it has at least 3 rows, and its duration is its length in days. The same
  summary of a result of \<^verbatim>\<open>prepare_data\<close>.
\<close>

definition episodes_of_spans :: "FeatureRow list \<Rightarrow> (int \<times> int \<times> int) list \<Rightarrow> (int \<times> int) list" where
  "episodes_of_spans df spans =
     map (\<lambda>(s, e, ev). (e - s, ev)) (filter (\<lambda>(s, e, ev). 3 \<le> rows_between df s e) spans)"

definition episode_summary :: "py_error + Episode list \<Rightarrow> py_error + (int \<times> int) list" where
  "episode_summary res = map_sum (\<lambda>e. e) (map (\<lambda>ep. (duration ep, event ep))) res"

text \<open>
  The block numbering of \<^term>\<open>miss_groups\<close> started in the middle of a frame: \<open>p\<close> is the
  \<^verbatim>\<open>exercise_done\<close> of the row before and \<open>a\<close> the block number reached there. Every row
  is paired with its block number.
\<close>

definition tagged_from :: "bool option \<Rightarrow> int \<Rightarrow> FeatureRow list \<Rightarrow> (int \<times> FeatureRow) list" where
  "tagged_from p a rows =
     zip (cumsum_from a (map (\<lambda>b. if b then 1 else 0) (neq_prev p (map exercise_done rows))))
       rows"

text \<open>
  A span is a triple (start date, stop date, event) handed to \<^verbatim>\<open>_aggregate_period\<close>; its
  length in days is the duration of the episode made from it. A span is kept when it has
  at least 3 rows and discarded otherwise.
\<close>

definition span_start :: "int \<times> int \<times> int \<Rightarrow> int" where
  "span_start p = fst p"

definition span_stop :: "int \<times> int \<times> int \<Rightarrow> int" where
  "span_stop p = fst (snd p)"

definition span_days :: "int \<times> int \<times> int \<Rightarrow> int" where
  "span_days p = span_stop p - span_start p"

definition span_kept :: "FeatureRow list \<Rightarrow> int \<times> int \<times> int \<Rightarrow> bool" where
  "span_kept df p = (3 \<le> length (loc_slice df (span_start p) (span_stop p)))"

subsection \<open>Concrete inputs\<close>

text \<open>
  The numeric operations without rounding: the statistics of the window computed over
  the reals, and the arithmetic of doubles on finite numbers and infinities (without
  signed zeros). The sample standard deviation of fewer than two numbers is \<^verbatim>\<open>NaN\<close>, and
  the mean of a column skips its \<^verbatim>\<open>NaN\<close> entries.
\<close>

definition mean :: "real list \<Rightarrow> real" where
  "mean xs = sum_list xs / real (length xs)"

definition std :: "real list \<Rightarrow> real" where
  "std xs = sqrt (sum_list (map (\<lambda>x. (x - mean xs)\<^sup>2) xs) / (real (length xs) - 1))"

fun exact_add :: "fval \<Rightarrow> fval \<Rightarrow> fval" where
  "exact_add (Fin a) (Fin b) = Fin (a + b)"
| "exact_add NaN _ = NaN"
| "exact_add _ NaN = NaN"
| "exact_add PInf NInf = NaN"
| "exact_add NInf PInf = NaN"
| "exact_add PInf _ = PInf"
| "exact_add _ PInf = PInf"
| "exact_add NInf _ = NInf"
| "exact_add _ NInf = NInf"

fun exact_div :: "fval \<Rightarrow> fval \<Rightarrow> fval" where
  "exact_div (Fin a) (Fin b) =
     (if b \<noteq> 0 then Fin (a / b) else if a = 0 then NaN else if 0 < a then PInf else NInf)"
| "exact_div (Fin a) PInf = Fin 0"
| "exact_div (Fin a) NInf = Fin 0"
| "exact_div PInf (Fin b) = (if 0 \<le> b then PInf else NInf)"
| "exact_div NInf (Fin b) = (if 0 \<le> b then NInf else PInf)"
| "exact_div _ _ = NaN"

definition exact_numerics :: numerics where
  "exact_numerics =
     \<lparr> roll_mean = (\<lambda>w xs. Fin (mean (drop (length xs - w) xs))),
       roll_std = (\<lambda>w xs. if length (drop (length xs - w) xs) < 2 then NaN
                           else Fin (std (drop (length xs - w) xs))),
       f_add = exact_add,
       f_div = exact_div,
       series_mean = (\<lambda>xs. let ys = filter (\<lambda>x. x \<noteq> NaN) xs
                            in if ys = [] then NaN
                               else exact_div (foldl exact_add (Fin 0) ys)
                                      (Fin (real (length ys)))) \<rparr>"

text \<open>
  A library instance whose fits always succeed, one whose Cox fit always fails (as
  lifelines does when the optimiser does not converge), and one whose Cox fit returns and
  whose concordance index cannot be read afterwards.
\<close>

definition trivial_libraries :: "(unit, unit, unit, unit) libraries" where
  "trivial_libraries =
     \<lparr> pandas = exact_numerics,
       scaler_fit = (\<lambda>X. Inr ()),
       scaler_transform = (\<lambda>sc x. x),
       logreg_fit = (\<lambda>X y. Inr ()),
       logreg_predict = (\<lambda>m x. 1),
       logreg_predict_proba = (\<lambda>m x. 1 / 2),
       logreg_coef = (\<lambda>m. []),
       accuracy_score = (\<lambda>y p. 1),
       roc_auc_score = (\<lambda>y p. Inr (1 / 2)),
       iforest_fit = (\<lambda>X. Inr ()),
       iforest_predict = (\<lambda>m x. 1),
       iforest_decision_function = (\<lambda>m x. 0),
       cph_fit = (\<lambda>rows. Inr ()),
       cph_concordance_index = (\<lambda>m. Inr (1 / 2)),
       cph_params = (\<lambda>m. []),
       cph_predict_partial_hazard = (\<lambda>m x. Inr 1) \<rparr>"

definition failing_cox_libraries :: "(unit, unit, unit, unit) libraries" where
  "failing_cox_libraries =
     trivial_libraries \<lparr> cph_fit := (\<lambda>rows. Inl (LibraryError ''ConvergenceError'')) \<rparr>"

definition failing_concordance_libraries :: "(unit, unit, unit, unit) libraries" where
  "failing_concordance_libraries =
     trivial_libraries \<lparr> cph_concordance_index := (\<lambda>m. Inl (LibraryError ''ZeroDivisionError'')) \<rparr>"

text \<open>
  Day \<open>d\<close> of the year 2024 (1 January 2024 is a Monday and has the ordinal 738886), with
  or without exercise.
\<close>

definition day :: "int \<Rightarrow> bool \<Rightarrow> DailyBehavior" where
  "day d done =
     \<lparr> date = 738885 + d, total_steps = 8000, exercise_minutes = (if done then 30 else 0),
       exercise_done = done, sleep_duration_minutes = 480, data_missing_flag = False \<rparr>"

definition anomaly_day_row :: "string \<rightharpoonup> fval" where
  "anomaly_day_row =
     [''total_steps'' \<mapsto> Fin 8000, ''sleep_duration_minutes'' \<mapsto> Fin 480,
      ''sleep_variance_7d'' \<mapsto> Fin 0]"

definition flagged_active_day :: DailyBehavior where
  "flagged_active_day =
     \<lparr> date = 738886, total_steps = 0, exercise_minutes = 30,
       exercise_done = True, sleep_duration_minutes = 0, data_missing_flag = True \<rparr>"

definition history_a :: "DailyBehavior list" where
  "history_a = [day 1 True, day 2 False, day 3 True]"

definition history_b :: "DailyBehavior list" where
  "history_b = [day 2 False, day 1 True, day 4 False, day 5 False]"



definition short_first_life :: "DailyBehavior list" where
  "short_first_life =
     [day 1 True, day 2 False, day 3 False, day 4 False, day 5 False, day 6 False,
      day 7 True, day 8 True, day 9 True]"

text \<open>A history with two lives: three active days, five missed days, three active days.\<close>

definition two_lives :: "DailyBehavior list" where
  "two_lives =
     [day 1 True, day 2 True, day 3 True,
      day 4 False, day 5 False, day 6 False, day 7 False, day 8 False,
      day 9 True, day 10 True, day 11 True]"

text \<open>A history that ends in its dropout: three active days, then five missed days.\<close>

definition no_return :: "DailyBehavior list" where
  "no_return =
     [day 1 True, day 2 True, day 3 True,
      day 4 False, day 5 False, day 6 False, day 7 False, day 8 False]"
subsection \<open>Properties of the recommendation cascade\<close>

lemma message_title_cascade:
  "message_title (generate_recommendation u d a b an fs) =
    (if dict_get fs ''sleep_duration_minutes'' 480 < 180 then ''Sleep First, Train Later''
     else if an then ''Check-in time''
     else if b > 1.2 then ''Protect your energy''
     else if a < 0.4 then
       (if dict_get fs ''consecutive_misses'' 0 \<le> 7
        then ''Don't break the chain'' else ''Everything okay?'')
     else if a < 0.5 then ''Time to Shift Gears''
     else if a \<le> 0.7 then ''Good Work'' else ''Keep It Up!'')"
  by (simp add: generate_recommendation_def Let_def)

lemma recommendation_type_cascade:
  "recommendation_type (generate_recommendation u d a b an fs) =
    (if dict_get fs ''sleep_duration_minutes'' 480 < 180 then RECOVERY
     else if an then RECOVERY
     else if b > 1.2 then SCALE_DOWN
     else if a < 0.4 then ANCHORING
     else MAINTAIN)"
  by (simp add: generate_recommendation_def Let_def)

text \<open>
  Claim C1. \<^verbatim>\<open>generate_recommendation\<close> is a decision table read in priority order, the
  first matching branch winning: sleep below 180 minutes gives recovery; else an anomaly
  gives recovery; else a burnout risk above 1.2 gives scale_down; else an adherence
  probability below 0.4 gives anchoring, its title chosen by whether consecutive_misses
  is at most 7; else below 0.5, else at most 0.7, else anything gives maintain (each with
  the title of its own branch). With sleep at least 180, no anomaly, burnout risk 1.5 and
  adherence 0.9 the type is scale_down; with sleep 120 it is recovery whatever the rest.
\<close>

theorem generate_recommendation_priority_order:
  fixes u d :: string and a b :: real and an :: bool and fs :: "string \<rightharpoonup> real"
  defines "s \<equiv> dict_get fs ''sleep_duration_minutes'' 480"
  defines "r \<equiv> generate_recommendation u d a b an fs"
  shows "(s < 180 \<longrightarrow>
            recommendation_type r = RECOVERY \<and> message_title r = ''Sleep First, Train Later'')
     \<and> (\<not> s < 180 \<and> an \<longrightarrow>
            recommendation_type r = RECOVERY \<and> message_title r = ''Check-in time'')
     \<and> (\<not> s < 180 \<and> \<not> an \<and> b > 1.2 \<longrightarrow>
            recommendation_type r = SCALE_DOWN \<and> message_title r = ''Protect your energy'')
     \<and> (\<not> s < 180 \<and> \<not> an \<and> \<not> b > 1.2 \<and> a < 0.4 \<longrightarrow>
            recommendation_type r = ANCHORING \<and>
            message_title r =
              (if dict_get fs ''consecutive_misses'' 0 \<le> 7
               then ''Don't break the chain'' else ''Everything okay?''))
     \<and> (\<not> s < 180 \<and> \<not> an \<and> \<not> b > 1.2 \<and> \<not> a < 0.4 \<and> a < 0.5 \<longrightarrow>
            recommendation_type r = MAINTAIN \<and> message_title r = ''Time to Shift Gears'')
     \<and> (\<not> s < 180 \<and> \<not> an \<and> \<not> b > 1.2 \<and> \<not> a < 0.5 \<and> a \<le> 0.7 \<longrightarrow>
            recommendation_type r = MAINTAIN \<and> message_title r = ''Good Work'')
     \<and> (\<not> s < 180 \<and> \<not> an \<and> \<not> b > 1.2 \<and> \<not> a \<le> 0.7 \<longrightarrow>
            recommendation_type r = MAINTAIN \<and> message_title r = ''Keep It Up!'')
     \<and> (180 \<le> s \<and> \<not> an \<and> b = 1.5 \<and> a = 0.9 \<longrightarrow> recommendation_type r = SCALE_DOWN)
     \<and> (fs ''sleep_duration_minutes'' = Some 120 \<longrightarrow> recommendation_type r = RECOVERY)"
  unfolding s_def r_def message_title_cascade recommendation_type_cascade
  by (simp add: dict_get_def)

theorem generate_recommendation_priority_order_witness:
  "message_title (generate_recommendation ''u'' ''d'' 0.9 1.5 True row_sleepless)
      = ''Sleep First, Train Later''
 \<and> message_title (generate_recommendation ''u'' ''d'' 0.9 1.5 True row_rested) = ''Check-in time''
 \<and> recommendation_type (generate_recommendation ''u'' ''d'' 0.9 1.5 False row_rested) = SCALE_DOWN
 \<and> message_title (generate_recommendation ''u'' ''d'' 0.3 1 False row_rested) = ''Everything okay?''
 \<and> message_title (generate_recommendation ''u'' ''d'' 0.45 1 False row_rested)
      = ''Time to Shift Gears''
 \<and> message_title (generate_recommendation ''u'' ''d'' 0.7 1 False row_rested) = ''Good Work''
 \<and> message_title (generate_recommendation ''u'' ''d'' 0.9 1 False row_rested) = ''Keep It Up!''
 \<and> recommendation_type (generate_recommendation ''u'' ''d'' 0.9 1.5 False row_sleepless) = RECOVERY"
  using
    generate_recommendation_priority_order
      [where fs = row_sleepless and an = True and b = "1.5" and a = "0.9" and u = "''u''" and d = "''d''"]
    generate_recommendation_priority_order
      [where fs = row_rested and an = True and b = "1.5" and a = "0.9" and u = "''u''" and d = "''d''"]
    generate_recommendation_priority_order
      [where fs = row_rested and an = False and b = "1.5" and a = "0.9" and u = "''u''" and d = "''d''"]
    generate_recommendation_priority_order
      [where fs = row_rested and an = False and b = 1 and a = "0.3" and u = "''u''" and d = "''d''"]
    generate_recommendation_priority_order
      [where fs = row_rested and an = False and b = 1 and a = "0.45" and u = "''u''" and d = "''d''"]
    generate_recommendation_priority_order
      [where fs = row_rested and an = False and b = 1 and a = "0.7" and u = "''u''" and d = "''d''"]
    generate_recommendation_priority_order
      [where fs = row_rested and an = False and b = 1 and a = "0.9" and u = "''u''" and d = "''d''"]
    generate_recommendation_priority_order
      [where fs = row_sleepless and an = False and b = "1.5" and a = "0.9" and u = "''u''" and d = "''d''"]
  by (simp add: row_rested_def row_sleepless_def dict_get_def)

text \<open>
  Claim C9. A feature row with no \<^verbatim>\<open>sleep_duration_minutes\<close> entry is read as 480 minutes:
  the engine answers as it does for the same row with the entry 480, so the
  sleep-deprivation branch is never taken and the type is recovery only for an anomaly.
\<close>

theorem missing_sleep_defaults_to_480:
  assumes "fs ''sleep_duration_minutes'' = None"
  shows "generate_recommendation u d a b an fs
           = generate_recommendation u d a b an (fs(''sleep_duration_minutes'' \<mapsto> 480))
       \<and> message_title (generate_recommendation u d a b an fs) \<noteq> ''Sleep First, Train Later''
       \<and> (recommendation_type (generate_recommendation u d a b an fs) = RECOVERY) = an"
proof -
  have s: "dict_get fs ''sleep_duration_minutes'' 480 = 480"
    using assms by (simp add: dict_get_def)
  have s': "dict_get (fs(''sleep_duration_minutes'' \<mapsto> 480)) ''sleep_duration_minutes'' 480 = 480"
    by (simp add: dict_get_def)
  have m: "dict_get (fs(''sleep_duration_minutes'' \<mapsto> 480)) ''consecutive_misses'' 0
          = dict_get fs ''consecutive_misses'' 0"
    by (simp add: dict_get_def)
  have "generate_recommendation u d a b an fs
           = generate_recommendation u d a b an (fs(''sleep_duration_minutes'' \<mapsto> 480))"
    unfolding generate_recommendation_def s s' m ..
  moreover have "message_title (generate_recommendation u d a b an fs) \<noteq> ''Sleep First, Train Later''"
    unfolding message_title_cascade s by simp
  moreover have "(recommendation_type (generate_recommendation u d a b an fs) = RECOVERY) = an"
    unfolding recommendation_type_cascade s by simp
  ultimately show ?thesis by blast
qed

theorem missing_sleep_defaults_to_480_witness:
  "row_no_sleep_entry ''sleep_duration_minutes'' = None
 \<and> generate_recommendation ''u'' ''d'' 0.2 3 False row_no_sleep_entry
      = generate_recommendation ''u'' ''d'' 0.2 3 False
          (row_no_sleep_entry(''sleep_duration_minutes'' \<mapsto> 480))
 \<and> recommendation_type (generate_recommendation ''u'' ''d'' 0.2 3 False row_no_sleep_entry)
      = SCALE_DOWN"
proof -
  have h: "row_no_sleep_entry ''sleep_duration_minutes'' = None"
    by (simp add: row_no_sleep_entry_def)
  have t: "recommendation_type (generate_recommendation ''u'' ''d'' 0.2 3 False row_no_sleep_entry)
      = SCALE_DOWN"
    unfolding recommendation_type_cascade by (simp add: dict_get_def row_no_sleep_entry_def)
  from missing_sleep_defaults_to_480
      [where fs = row_no_sleep_entry and u = "''u''" and d = "''d''" and a = "0.2" and b = 3
         and an = False, OF h] h t
  show ?thesis by blast
qed


subsection \<open>Column operations read only the rows above\<close>

lemma length_shift1 [simp]: "length (shift1 xs) = length xs"
  by (cases xs) (auto simp: shift1_def)

lemma nth_shift1:
  "i < length xs \<Longrightarrow> shift1 xs ! i = (case i of 0 \<Rightarrow> None | Suc j \<Rightarrow> Some (xs ! j))"
  by (cases xs) (auto simp: shift1_def nth_butlast nth_Cons split: nat.splits)

lemma take_shift1: "take n (shift1 xs) = shift1 (take n xs)"
  by (rule nth_equalityI) (auto simp: nth_shift1 split: nat.splits)

lemma length_neq_prev [simp]: "length (neq_prev p xs) = length xs"
  by (induction xs arbitrary: p) auto

lemma take_neq_prev: "take n (neq_prev p xs) = neq_prev p (take n xs)"
  by (induction xs arbitrary: n p) (auto simp: take_Cons split: nat.splits)

lemma length_cumsum_from [simp]: "length (cumsum_from a xs) = length xs"
  by (induction xs arbitrary: a) auto

lemma take_cumsum_from: "take n (cumsum_from a xs) = cumsum_from a (take n xs)"
  by (induction xs arbitrary: n a) (auto simp: take_Cons split: nat.splits)

lemma length_groupby_cumsum [simp]: "length (groupby_cumsum acc gvs) = length gvs"
  by (induction gvs arbitrary: acc) (auto simp: Let_def)

lemma take_groupby_cumsum: "take n (groupby_cumsum acc gvs) = groupby_cumsum acc (take n gvs)"
  by (induction gvs arbitrary: n acc) (auto simp: take_Cons Let_def split: nat.splits)

lemma length_rolling [simp]: "length (rolling w mp agg xs) = length xs"
  by (simp add: rolling_def)

lemma window_take: "i < n \<Longrightarrow> window w (take n xs) i = window w xs i"
  by (simp add: window_def min_def)

lemma nth_rolling:
  "i < length xs \<Longrightarrow>
   rolling w mp agg xs ! i =
     (if mp \<le> length (window w xs i) then Some (agg (window w xs i)) else None)"
  by (simp add: rolling_def)

lemma take_rolling: "take n (rolling w mp agg xs) = rolling w mp agg (take n xs)"
  by (rule nth_equalityI) (auto simp: nth_rolling window_take)

lemma length_rolling_stat [simp]: "length (rolling_stat w mp stat xs) = length xs"
  by (simp add: rolling_stat_def)

lemma nth_rolling_stat:
  "i < length xs \<Longrightarrow>
   rolling_stat w mp stat xs ! i =
     (if mp \<le> length (window w xs i) then stat (take (Suc i) xs) else NaN)"
  by (simp add: rolling_stat_def)

lemma take_rolling_stat:
  "take n (rolling_stat w mp stat xs) = rolling_stat w mp stat (take n xs)"
proof (rule nth_equalityI)
  show "length (take n (rolling_stat w mp stat xs)) = length (rolling_stat w mp stat (take n xs))"
    by simp
next
  fix i
  assume "i < length (take n (rolling_stat w mp stat xs))"
  then have i: "i < n" "i < length xs" by simp_all
  then have t: "take (Suc i) (take n xs) = take (Suc i) xs" by (simp add: min_absorb1)
  show "take n (rolling_stat w mp stat xs) ! i = rolling_stat w mp stat (take n xs) ! i"
    using i by (simp add: nth_rolling_stat window_take t)
qed


named_theorems col_take \<open>a column of a prefix of the frame is the prefix of the column\<close>

lemma take_col_steps [col_take]: "take n (col_steps df) = col_steps (take n df)"
  by (simp add: col_steps_def take_map)

lemma take_col_sleep [col_take]: "take n (col_sleep df) = col_sleep (take n df)"
  by (simp add: col_sleep_def take_map)

lemma take_col_prev_steps [col_take]: "take n (col_prev_steps df) = col_prev_steps (take n df)"
  by (simp add: col_prev_steps_def take_shift1 col_take)

lemma take_col_prev_sleep_dur [col_take]:
  "take n (col_prev_sleep_dur df) = col_prev_sleep_dur (take n df)"
  by (simp add: col_prev_sleep_dur_def take_shift1 col_take)

lemma take_col_prev_exercise_done [col_take]:
  "take n (col_prev_exercise_done df) = col_prev_exercise_done (take n df)"
  by (simp add: col_prev_exercise_done_def take_shift1 take_map)

lemma take_col_steps_7d_avg [col_take]:
  "take n (col_steps_7d_avg pd df) = col_steps_7d_avg pd (take n df)"
  by (simp add: col_steps_7d_avg_def take_rolling_stat col_take)

lemma take_col_sleep_7d_avg [col_take]:
  "take n (col_sleep_7d_avg pd df) = col_sleep_7d_avg pd (take n df)"
  by (simp add: col_sleep_7d_avg_def take_rolling_stat col_take)

lemma take_col_sleep_variance_7d [col_take]:
  "take n (col_sleep_variance_7d pd df) = col_sleep_variance_7d pd (take n df)"
  by (simp add: col_sleep_variance_7d_def take_rolling_stat col_take)

lemma take_col_steps_variance_7d [col_take]:
  "take n (col_steps_variance_7d pd df) = col_steps_variance_7d pd (take n df)"
  by (simp add: col_steps_variance_7d_def take_rolling_stat col_take)

lemma take_col_sleep_consistency_score [col_take]:
  "take n (col_sleep_consistency_score pd df) = col_sleep_consistency_score pd (take n df)"
  by (simp add: col_sleep_consistency_score_def take_map take_zip col_take)

lemma take_col_rolling_misses_3d [col_take]:
  "take n (col_rolling_misses_3d df) = col_rolling_misses_3d (take n df)"
  by (simp add: col_rolling_misses_3d_def take_rolling take_map)

lemma take_col_is_miss [col_take]: "take n (col_is_miss df) = col_is_miss (take n df)"
  by (simp add: col_is_miss_def take_map)

lemma take_col_group_id [col_take]: "take n (col_group_id df) = col_group_id (take n df)"
  by (simp add: col_group_id_def take_cumsum_from take_map take_neq_prev col_take)

lemma take_col_consecutive_misses [col_take]:
  "take n (col_consecutive_misses df) = col_consecutive_misses (take n df)"
  by (simp add: col_consecutive_misses_def take_groupby_cumsum take_zip col_take)

lemma take_col_is_recovery_period [col_take]:
  "take n (col_is_recovery_period df) = col_is_recovery_period (take n df)"
  by (simp add: col_is_recovery_period_def take_map col_take)

lemma take_col_is_streak_break [col_take]:
  "take n (col_is_streak_break df) = col_is_streak_break (take n df)"
  by (simp add: col_is_streak_break_def take_map col_take)

lemma take_col_days_since_workout [col_take]:
  "take n (col_days_since_workout df) = col_days_since_workout (take n df)"
  by (simp add: col_days_since_workout_def take_map take_zip col_take)

lemma take_col_day_of_week [col_take]:
  "take n (col_day_of_week df) = col_day_of_week (take n df)"
  by (simp add: col_day_of_week_def take_map)

lemma take_col_is_weekend [col_take]:
  "take n (col_is_weekend df) = col_is_weekend (take n df)"
  by (simp add: col_is_weekend_def take_map col_take)

lemma take_col_steps_30d_avg [col_take]:
  "take n (col_steps_30d_avg pd df) = col_steps_30d_avg pd (take n df)"
  by (simp add: col_steps_30d_avg_def take_rolling_stat col_take)

lemma take_col_effort_ratio [col_take]:
  "take n (col_effort_ratio pd df) = col_effort_ratio pd (take n df)"
  by (simp add: col_effort_ratio_def take_map take_zip col_take)

lemma nth_col_take:
  assumes "take n c = c'" and "i < n"
  shows "c' ! i = c ! i"
  using assms by auto

lemma enhance_row_take:
  assumes "i < n"
  shows "enhance_row pd (take n df) i = enhance_row pd df i"
  unfolding enhance_row_def
  using assms
  by (simp add: col_take [symmetric])

lemma length_enhance_sorted [simp]: "length (enhance_sorted pd df) = length df"
  by (simp add: enhance_sorted_def)

lemma length_enhance [simp]: "length (enhance pd xs) = length xs"
  by (simp add: enhance_def)

lemma nth_enhance_sorted: "i < length df \<Longrightarrow> enhance_sorted pd df ! i = enhance_row pd df i"
  by (simp add: enhance_sorted_def)

lemma take_enhance_sorted: "take n (enhance_sorted pd df) = enhance_sorted pd (take n df)"
  by (rule nth_equalityI) (simp_all add: nth_enhance_sorted enhance_row_take)


subsection \<open>No lookahead\<close>

lemma sorted_history_a: "sort_key date history_a = [day 1 True, day 2 False, day 3 True]"
  by (simp add: history_a_def day_def)

lemma sorted_history_b:
  "sort_key date history_b = [day 1 True, day 2 False, day 4 False, day 5 False]"
  by (simp add: history_b_def day_def)

text \<open>
  Claim C5. \<^verbatim>\<open>enhance\<close> has no lookahead: two inputs that agree on their first \<open>i + 1\<close>
  records in date order give feature tables that agree on their first \<open>i + 1\<close> rows, in
  every column; and row \<open>i\<close> of the table is row \<open>i\<close> of the table computed from the first
  \<open>i + 1\<close> records alone.
\<close>

theorem enhance_no_lookahead:
  "(take (Suc i) (sort_key date xs) = take (Suc i) (sort_key date ys)
      \<longrightarrow> take (Suc i) (enhance pd xs) = take (Suc i) (enhance pd ys))
 \<and> (i < length xs
      \<longrightarrow> enhance pd xs ! i = enhance_sorted pd (take (Suc i) (sort_key date xs)) ! i)"
proof (intro conjI impI)
  assume "take (Suc i) (sort_key date xs) = take (Suc i) (sort_key date ys)"
  then show "take (Suc i) (enhance pd xs) = take (Suc i) (enhance pd ys)"
    by (simp add: enhance_def take_enhance_sorted)
next
  assume "i < length xs"
  then have "enhance pd xs ! i = take (Suc i) (enhance pd xs) ! i" by simp
  then show "enhance pd xs ! i = enhance_sorted pd (take (Suc i) (sort_key date xs)) ! i"
    by (simp add: enhance_def take_enhance_sorted)
qed

theorem enhance_no_lookahead_witness:
  "take (Suc 1) (sort_key date history_a) = take (Suc 1) (sort_key date history_b)
 \<and> take (Suc 1) (enhance exact_numerics history_a) = take (Suc 1) (enhance exact_numerics history_b)
 \<and> history_a \<noteq> history_b
 \<and> (1::nat) < length history_a
 \<and> enhance exact_numerics history_a ! 1 = enhance_sorted exact_numerics (take (Suc 1) (sort_key date history_a)) ! 1"
proof -
  have h: "take (Suc 1) (sort_key date history_a) = take (Suc 1) (sort_key date history_b)"
    by (simp add: sorted_history_a sorted_history_b)
  have l: "(1::nat) < length history_a" by (simp add: history_a_def)
  have d: "history_a \<noteq> history_b" by (simp add: history_a_def history_b_def)
  from enhance_no_lookahead [where i = 1 and xs = history_a and ys = history_b] h l d
  show ?thesis by blast
qed


subsection \<open>The streak counter\<close>

lemma groupby_cumsum_run_fold:
  fixes bs :: "bool list"
  defines "bi \<equiv> (\<lambda>b. if b then 1 else 0 :: int)"
  assumes "\<forall>g>a. acc g = 0"
    and "case p of None \<Rightarrow> c = 0 | Some q \<Rightarrow> acc a = c \<and> (q = 0 \<longrightarrow> c = 0) \<and> (q = 0 \<or> q = 1)"
  shows "groupby_cumsum acc
           (zip (cumsum_from a (map bi (neq_prev p (map bi bs)))) (map bi bs))
         = run_fold c bs"
  using assms(2,3)
proof (induction bs arbitrary: a acc p c)
  case Nil
  then show ?case by simp
next
  case (Cons b bs)
  let ?a' = "a + bi (p \<noteq> Some (bi b))"
  let ?s = "acc ?a' + bi b"
  let ?c' = "if b then c + 1 else 0"
  have s: "?s = ?c'"
    using Cons.prems by (cases p; cases b) (auto simp: bi_def)
  have inv1: "\<forall>g>?a'. (acc(?a' := ?s)) g = 0"
    using Cons.prems(1) by (auto simp: bi_def)
  have inv2: "case Some (bi b) of None \<Rightarrow> ?c' = 0
              | Some q \<Rightarrow> (acc(?a' := ?s)) ?a' = ?c' \<and> (q = 0 \<longrightarrow> ?c' = 0) \<and> (q = 0 \<or> q = 1)"
    using s by (auto simp: bi_def)
  have "groupby_cumsum acc
          (zip (cumsum_from a (map bi (neq_prev p (map bi (b # bs))))) (map bi (b # bs)))
        = ?s # groupby_cumsum (acc(?a' := ?s))
            (zip (cumsum_from ?a' (map bi (neq_prev (Some (bi b)) (map bi bs)))) (map bi bs))"
    by (simp add: Let_def)
  also have "\<dots> = ?s # run_fold ?c' bs"
    by (simp only: Cons.IH [OF inv1 inv2])
  also have "\<dots> = run_fold c (b # bs)"
    by (simp only: s run_fold.simps Let_def)
  finally show ?case .
qed


lemma col_consecutive_misses_run_fold:
  "col_consecutive_misses df = run_fold 0 (map miss_day df)"
proof -
  have m: "col_is_miss df = map (\<lambda>b. if b then 1 else 0) (map miss_day df)"
    by (simp add: col_is_miss_def miss_day_def)
  show ?thesis
    unfolding col_consecutive_misses_def col_group_id_def m
    by (rule groupby_cumsum_run_fold) simp_all
qed

lemma length_run_fold [simp]: "length (run_fold c ms) = length ms"
  by (induction ms arbitrary: c) (auto simp: Let_def)

lemma run_fold_nth_0: "ms \<noteq> [] \<Longrightarrow> run_fold c ms ! 0 = (if ms ! 0 then c + 1 else 0)"
  by (cases ms) (auto simp: Let_def)

lemma run_fold_nth_Suc:
  "Suc i < length ms \<Longrightarrow>
   run_fold c ms ! Suc i = (if ms ! Suc i then run_fold c ms ! i + 1 else 0)"
proof (induction ms arbitrary: c i)
  case Nil
  then show ?case by simp
next
  case (Cons m ms)
  show ?case
  proof (cases i)
    case 0
    with Cons.prems show ?thesis by (cases ms) (auto simp: Let_def)
  next
    case (Suc j)
    with Cons.prems Cons.IH [of j "if m then c + 1 else 0"] show ?thesis
      by (simp add: Let_def)
  qed
qed

lemma run_fold_takeWhile:
  "i < length ms \<Longrightarrow>
   run_fold c ms ! i =
     (if list_all (\<lambda>b. b) (take (Suc i) ms) then c + int i + 1
      else int (length (takeWhile (\<lambda>b. b) (rev (take (Suc i) ms)))))"
proof (induction ms arbitrary: c i)
  case Nil
  then show ?case by simp
next
  case (Cons m ms)
  show ?case
  proof (cases i)
    case 0
    then show ?thesis by (simp add: Let_def)
  next
    case (Suc j)
    with Cons.prems have j: "j < length ms" by simp
    have tw: "takeWhile (\<lambda>b. b) (rev (take (Suc j) ms) @ [m]) =
              (if list_all (\<lambda>b. b) (take (Suc j) ms)
               then rev (take (Suc j) ms) @ (if m then [m] else [])
               else takeWhile (\<lambda>b. b) (rev (take (Suc j) ms)))"
      by (auto simp: takeWhile_append list_all_iff)
    from Cons.IH [OF j, of "if m then c + 1 else 0"] j show ?thesis
      unfolding Suc by (simp add: Let_def tw min_def)
  qed
qed

lemma run_fold_run_length:
  assumes "i < length ms"
  shows "run_fold 0 ms ! i = int (length (takeWhile (\<lambda>b. b) (rev (take (Suc i) ms))))"
proof (cases "list_all (\<lambda>b. b) (take (Suc i) ms)")
  case True
  then have e: "takeWhile (\<lambda>b. b) (rev (take (Suc i) ms)) = rev (take (Suc i) ms)"
    by (simp add: list_all_iff)
  have l: "length (rev (take (Suc i) ms)) = Suc i"
    using assms by simp
  have tw: "length (takeWhile (\<lambda>b. b) (rev (take (Suc i) ms))) = Suc i"
    by (simp only: e l)
  from True assms show ?thesis
    by (simp only: run_fold_takeWhile tw if_True)
next
  case False
  with assms show ?thesis by (simp add: run_fold_takeWhile)
qed

lemma run_length_ending_map:
  "run_length_ending P rows i = length (takeWhile (\<lambda>b. b) (rev (take (Suc i) (map P rows))))"
proof -
  have "takeWhile (\<lambda>b. b) (map P ys) = map P (takeWhile P ys)" for ys
    by (induction ys) auto
  then show ?thesis
    by (simp add: run_length_ending_def take_map rev_map)
qed

text \<open>The columns of the record are carried into the feature table unchanged.\<close>

lemma map_exercise_done_enhance_sorted: "map exercise_done (enhance_sorted pd df) = map exercise_done df"
  by (rule nth_equalityI) (simp_all add: nth_enhance_sorted enhance_row_def)

lemma map_date_enhance_sorted: "map date (enhance_sorted pd df) = map date df"
  by (rule nth_equalityI) (simp_all add: nth_enhance_sorted enhance_row_def)

lemma map_data_missing_flag_enhance_sorted:
  "map data_missing_flag (enhance_sorted pd df) = map data_missing_flag df"
  by (rule nth_equalityI) (simp_all add: nth_enhance_sorted enhance_row_def)

lemma map_miss_day_enhance_sorted: "map miss_day (enhance_sorted pd df) = map miss_day df"
  by (rule nth_equalityI) (simp_all add: nth_enhance_sorted enhance_row_def miss_day_def)

lemma consecutive_misses_enhance_sorted:
  "i < length df \<Longrightarrow>
   consecutive_misses (enhance_sorted pd df ! i) = run_fold 0 (map miss_day (enhance_sorted pd df)) ! i"
  by (simp add: nth_enhance_sorted enhance_row_def col_consecutive_misses_run_fold
      map_miss_day_enhance_sorted)


lemma map_miss_day_spec_enhance_sorted:
  "map miss_day_spec (enhance_sorted pd df) = map miss_day_spec df"
  by (rule nth_equalityI) (simp_all add: nth_enhance_sorted enhance_row_def miss_day_spec_def)

lemma exercise_done_enhance:
  "i < length xs \<Longrightarrow> exercise_done (enhance pd xs ! i) = exercise_done (sort_key date xs ! i)"
  by (simp add: enhance_def nth_enhance_sorted enhance_row_def)

lemma consecutive_misses_enhance:
  "i < length xs \<Longrightarrow>
   consecutive_misses (enhance pd xs ! i) = run_fold 0 (map miss_day (sort_key date xs)) ! i"
  by (simp add: enhance_def consecutive_misses_enhance_sorted map_miss_day_enhance_sorted)

lemma sorted_flagged: "sort_key date [flagged_active_day] = [flagged_active_day]"
  by simp

text \<open>
  Claim C3, as stated, counts a day with \<^verbatim>\<open>data_missing_flag\<close> as a miss. On the one-day
  history \<^term>\<open>[flagged_active_day]\<close> (exercise done, flag set) the column is 0 and the
  stated run length is 1.
\<close>

theorem consecutive_misses_ignores_missing_flag:
  "consecutive_misses (enhance exact_numerics [flagged_active_day] ! 0)
     \<noteq> int (run_length_ending miss_day_spec (enhance exact_numerics [flagged_active_day]) 0)"
proof -
  have l: "consecutive_misses (enhance exact_numerics [flagged_active_day] ! 0) = 0"
    by (simp add: consecutive_misses_enhance miss_day_def flagged_active_day_def)
  have r: "run_length_ending miss_day_spec (enhance exact_numerics [flagged_active_day]) 0 = 1"
    by (simp add: run_length_ending_map enhance_def map_miss_day_spec_enhance_sorted
        miss_day_spec_def flagged_active_day_def)
  show ?thesis by (simp add: l r)
qed

text \<open>
  Claim C3, as the code has it. \<^verbatim>\<open>consecutive_misses\<close> at row \<open>i\<close> is the run length of
  consecutive miss days ending at \<open>i\<close>, where a day is a miss iff \<^verbatim>\<open>exercise_done\<close> is false
  (\<^verbatim>\<open>data_missing_flag\<close> is not read): it is 0 on every day with \<^verbatim>\<open>exercise_done\<close>, and on a
  miss day it is one more than on the row before (1 on the first row).
\<close>

theorem consecutive_misses_is_run_length:
  fixes pd :: numerics and xs :: "DailyBehavior list"
  assumes "i < length xs"
  defines "rows \<equiv> enhance pd xs"
  shows "consecutive_misses (rows ! i) = int (run_length_ending miss_day rows i)
       \<and> (exercise_done (rows ! i) \<longrightarrow> consecutive_misses (rows ! i) = 0)
       \<and> (\<not> exercise_done (rows ! i) \<longrightarrow>
            consecutive_misses (rows ! i)
              = (if i = 0 then 0 else consecutive_misses (rows ! (i - 1))) + 1)"
proof -
  let ?ms = "map miss_day rows"
  have len: "i < length (sort_key date xs)" "i < length ?ms" "i < length rows"
    using assms by (simp_all add: enhance_def)
  have cm: "consecutive_misses (rows ! j) = run_fold 0 ?ms ! j" if "j < length xs" for j
    using that unfolding rows_def enhance_def
    by (intro consecutive_misses_enhance_sorted) simp
  have m: "?ms ! i = (\<not> exercise_done (rows ! i))"
    using len by (simp add: miss_day_def)
  have a: "consecutive_misses (rows ! i) = int (run_length_ending miss_day rows i)"
    using len by (simp add: cm assms(1) run_fold_run_length run_length_ending_map)
  have b: "consecutive_misses (rows ! i) = 0" if "exercise_done (rows ! i)"
  proof (cases i)
    case 0
    with that m len show ?thesis
      using run_fold_nth_0 [of ?ms 0] by (auto simp: cm assms(1))
  next
    case (Suc j)
    with that m len show ?thesis
      using run_fold_nth_Suc [of j ?ms 0] by (auto simp: cm assms(1))
  qed
  have c: "consecutive_misses (rows ! i)
              = (if i = 0 then 0 else consecutive_misses (rows ! (i - 1))) + 1"
    if "\<not> exercise_done (rows ! i)"
  proof (cases i)
    case 0
    with that m len show ?thesis
      using run_fold_nth_0 [of ?ms 0] by (auto simp: cm assms(1))
  next
    case (Suc j)
    then have "j < length xs" using assms(1) by simp
    with Suc that m len show ?thesis
      using run_fold_nth_Suc [of j ?ms 0] cm [of j] by (auto simp: cm assms(1))
  qed
  from a b c show ?thesis by blast
qed


theorem consecutive_misses_is_run_length_witness:
  "(3::nat) < length history_b
 \<and> \<not> exercise_done (enhance exact_numerics history_b ! 3)
 \<and> consecutive_misses (enhance exact_numerics history_b ! 3)
      = consecutive_misses (enhance exact_numerics history_b ! 2) + 1
 \<and> consecutive_misses (enhance exact_numerics history_b ! 3)
      = int (run_length_ending miss_day (enhance exact_numerics history_b) 3)
 \<and> exercise_done (enhance exact_numerics history_b ! 0)
 \<and> consecutive_misses (enhance exact_numerics history_b ! 0) = 0"
proof -
  have l: "(3::nat) < length history_b" "(0::nat) < length history_b"
    by (simp_all add: history_b_def)
  have e3: "\<not> exercise_done (enhance exact_numerics history_b ! 3)"
    by (simp add: exercise_done_enhance [OF l(1)] sorted_history_b day_def)
  have e0: "exercise_done (enhance exact_numerics history_b ! 0)"
    by (simp add: exercise_done_enhance [OF l(2)] sorted_history_b day_def)
  from consecutive_misses_is_run_length [OF l(1), where pd = exact_numerics]
    consecutive_misses_is_run_length [OF l(2), where pd = exact_numerics]
    l e3 e0
  show ?thesis by simp
qed


subsection \<open>The sleep consistency score\<close>


lemma nan_op_NaN [simp]: "nan_op op NaN b = NaN" "nan_op op a NaN = NaN"
  by (simp_all add: nan_op_def)

lemma consistency_score_NaN [simp]: "consistency_score pd NaN avg = NaN"
  by (simp add: consistency_score_def)

lemma length_col_sleep_consistency_score [simp]:
  "length (col_sleep_consistency_score pd df) = length df"
  by (simp add: col_sleep_consistency_score_def col_sleep_variance_7d_def col_sleep_7d_avg_def
      col_sleep_def)



text \<open>
  The formula over the real numbers, for a deviation and a mean that are not negative:
  its value lies in (0, 1], is at least \<open>1 - s / (m + epsilon)\<close> and is 1 when the
  deviation is 0. This is a property of the formula, not of the doubles that the code
  computes.
\<close>

lemma consistency_formula_bounds:
  fixes s m :: real
  assumes "0 \<le> s" and "0 \<le> m"
  shows "0 < 1 / (1 + s / (m + epsilon))"
    and "1 / (1 + s / (m + epsilon)) \<le> 1"
    and "1 - s / (m + epsilon) \<le> 1 / (1 + s / (m + epsilon))"
    and "s = 0 \<Longrightarrow> 1 / (1 + s / (m + epsilon)) = 1"
proof -
  have e: "0 < m + epsilon" using assms by (simp add: epsilon_def add_nonneg_pos)
  define q where "q = s / (m + epsilon)"
  have q: "0 \<le> q" using assms e by (simp add: q_def)
  show "0 < 1 / (1 + s / (m + epsilon))" using q by (simp add: q_def [symmetric] add_nonneg_pos)
  show "1 / (1 + s / (m + epsilon)) \<le> 1" using q by (simp add: q_def [symmetric])
  have "(1 - q) * (1 + q) \<le> 1" by (simp add: algebra_simps)
  then show "1 - s / (m + epsilon) \<le> 1 / (1 + s / (m + epsilon))"
    using q unfolding q_def [symmetric] by (simp add: pos_le_divide_eq add_nonneg_pos)
  show "s = 0 \<Longrightarrow> 1 / (1 + s / (m + epsilon)) = 1" by simp
qed







subsection \<open>Inference before training\<close>

text \<open>
  Claim C7. On a model whose trained flag is not set, \<^verbatim>\<open>predict_next_day_proba\<close> raises
  \<^verbatim>\<open>ValueError("Model not trained yet")\<close> and \<^verbatim>\<open>predict_current_risk\<close> returns 0.5.
  \<^verbatim>\<open>check_anomaly\<close> returns \<^verbatim>\<open>is_anomaly = False\<close> and the number 0, but under the key
  \<^verbatim>\<open>score\<close>: its result has no \<^verbatim>\<open>severity_score\<close> entry, the key that the trained branch
  of the same function writes and that \<^verbatim>\<open>demo_phase3.py\<close> reads.
\<close>

theorem untrained_inference:
  fixes lib :: "('sc, 'lr, 'f, 'cph) libraries"
  assumes "\<not> is_trained a" and "\<not> is_trained b" and "\<not> is_trained c"
  shows "predict_next_day_proba lib a row = Inl (ValueError ''Model not trained yet'')
       \<and> predict_current_risk lib b feats = Inr 0.5
       \<and> (\<exists>d. check_anomaly lib c day_row = Inr d
              \<and> d ''is_anomaly'' = Some (PyBool False)
              \<and> d ''score'' = Some (PyFloat 0)
              \<and> d ''severity_score'' = None)"
  using assms
  by (simp add: predict_next_day_proba_def predict_current_risk_def check_anomaly_def)

theorem untrained_inference_witness:
  "predict_next_day_proba trivial_libraries new_AdherenceModel
      (hd (enhance exact_numerics [day 1 True]))
      = Inl (ValueError ''Model not trained yet'')
 \<and> predict_current_risk trivial_libraries (new_BurnoutRiskModel 5) Map.empty = Inr 0.5
 \<and> (\<exists>d. check_anomaly trivial_libraries new_AnomalyDetector anomaly_day_row = Inr d
        \<and> d ''is_anomaly'' = Some (PyBool False)
        \<and> d ''score'' = Some (PyFloat 0)
        \<and> d ''severity_score'' = None)"
  using untrained_inference [where lib = trivial_libraries and a = new_AdherenceModel
      and b = "new_BurnoutRiskModel 5" and c = new_AnomalyDetector
      and row = "hd (enhance exact_numerics [day 1 True])" and feats = Map.empty
      and day_row = anomaly_day_row]
  by (simp add: new_AdherenceModel_def new_BurnoutRiskModel_def new_AnomalyDetector_def)

subsection \<open>Grouping by block number finds the runs\<close>

lemma concat_runs_by: "concat (runs_by key xs) = xs"
  by (induction key xs rule: runs_by.induct) simp_all

lemma runs_by_nonempty: "b \<in> set (runs_by key xs) \<Longrightarrow> b \<noteq> []"
  by (induction key xs rule: runs_by.induct) auto

lemma runs_by_append_run:
  assumes "\<forall>y\<in>set ys. key y = key x" and "\<forall>z\<in>set zs. key z \<noteq> key x"
  shows "runs_by key (x # ys @ zs) = (x # ys) # runs_by key zs"
proof -
  have tz: "takeWhile (\<lambda>y. key y = key x) zs = []"
    using assms(2) by (cases zs) auto
  have dz: "dropWhile (\<lambda>y. key y = key x) zs = zs"
    using assms(2) by (cases zs) auto
  have t: "takeWhile (\<lambda>y. key y = key x) (ys @ zs) = ys"
    using assms(1) by (simp add: takeWhile_append2 tz)
  have d: "dropWhile (\<lambda>y. key y = key x) (ys @ zs) = zs"
    using assms(1) by (simp add: dropWhile_append2 dz)
  show ?thesis by (simp only: runs_by.simps t d)
qed


lemma remdups_adj_run:
  assumes "\<forall>k\<in>set ks. k = a" and "ls = [] \<or> hd ls \<noteq> a"
  shows "remdups_adj (a # ks @ ls) = a # remdups_adj ls"
  using assms
proof (induction ks)
  case Nil
  then show ?case by (cases ls) auto
next
  case (Cons k ks)
  then show ?case by simp
qed

lemma groupby_sorted_step:
  fixes key :: "'a \<Rightarrow> int"
  assumes s: "sorted (map key (x # t @ d))"
    and tk: "\<forall>y\<in>set t. key y = key x"
    and hd: "d = [] \<or> key (hd d) \<noteq> key x"
  shows "groupby_sorted key (x # t @ d) = (x # t) # groupby_sorted key d"
proof -
  from s have sd: "sorted (map key d)"
    by (simp add: sorted_append)
  have gt: "\<forall>z\<in>set d. key x < key z"
  proof
    fix z assume z: "z \<in> set d"
    then obtain z0 zs where d0: "d = z0 # zs" by (cases d) auto
    with hd have "key z0 \<noteq> key x" by simp
    moreover from s d0 have "key x \<le> key z0" by (simp add: sorted_append)
    moreover from sd d0 z have "key z0 \<le> key z" by auto
    ultimately show "key x < key z" by simp
  qed
  have srt: "sort (map key (x # t @ d)) = map key (x # t @ d)"
    using s by (rule sort_key_id_if_sorted [where f = "\<lambda>k. k", simplified])
  have srtd: "sort (map key d) = map key d"
    using sd by (rule sort_key_id_if_sorted [where f = "\<lambda>k. k", simplified])
  have hd': "map key d = [] \<or> hd (map key d) \<noteq> key x"
    using hd by (cases d) auto
  have tk': "\<forall>k\<in>set (map key t). k = key x"
    using tk by auto
  have ra: "remdups_adj (map key (x # t @ d)) = key x # remdups_adj (map key d)"
    using remdups_adj_run [OF tk' hd'] by simp
  have f1: "filter (\<lambda>y. key y = key x) (x # t @ d) = x # t"
    using tk gt by (fastforce simp: filter_empty_conv)
  have f2: "filter (\<lambda>y. key y = k) (x # t @ d) = filter (\<lambda>y. key y = k) d"
    if "k \<in> set (remdups_adj (map key d))" for k
  proof -
    from that gt have "key x < k" by auto
    with tk show ?thesis by (fastforce simp: filter_empty_conv)
  qed
  have "groupby_sorted key (x # t @ d)
        = map (\<lambda>k. filter (\<lambda>y. key y = k) (x # t @ d)) (remdups_adj (map key (x # t @ d)))"
    by (simp only: groupby_sorted_def srt)
  also have "\<dots> = map (\<lambda>k. filter (\<lambda>y. key y = k) (x # t @ d))
                     (key x # remdups_adj (map key d))"
    by (simp only: ra)
  also have "\<dots> = filter (\<lambda>y. key y = key x) (x # t @ d)
        # map (\<lambda>k. filter (\<lambda>y. key y = k) (x # t @ d)) (remdups_adj (map key d))"
    by (rule list.map(2))
  also have "\<dots> = (x # t)
        # map (\<lambda>k. filter (\<lambda>y. key y = k) (x # t @ d)) (remdups_adj (map key d))"
    by (simp only: f1)
  also have "map (\<lambda>k. filter (\<lambda>y. key y = k) (x # t @ d)) (remdups_adj (map key d))
        = map (\<lambda>k. filter (\<lambda>y. key y = k) d) (remdups_adj (map key d))"
    using f2 by (intro map_cong refl)
  also have "\<dots> = groupby_sorted key d"
    by (simp only: groupby_sorted_def srtd)
  finally show ?thesis .
qed


lemma groupby_sorted_runs_by:
  fixes key :: "'a \<Rightarrow> int"
  assumes "sorted (map key xs)"
  shows "groupby_sorted key xs = runs_by key xs"
  using assms
proof (induction key xs rule: runs_by.induct)
  case (1 key)
  then show ?case by (simp add: groupby_sorted_def)
next
  case (2 key x xs)
  define t where "t = takeWhile (\<lambda>y. key y = key x) xs"
  define d where "d = dropWhile (\<lambda>y. key y = key x) xs"
  have xs: "t @ d = xs" by (simp add: t_def d_def)
  have tk: "\<forall>y\<in>set t. key y = key x"
    unfolding t_def by (auto dest: set_takeWhileD)
  have s: "sorted (map key (x # t @ d))" using "2.prems" by (simp only: xs)
  then have sd: "sorted (map key d)"
    by (simp add: sorted_append)
  have hd: "d = [] \<or> key (hd d) \<noteq> key x"
    unfolding d_def using hd_dropWhile [of "\<lambda>y. key y = key x" xs] by blast
  have "groupby_sorted key (x # t @ d) = (x # t) # groupby_sorted key d"
    using s tk hd by (rule groupby_sorted_step)
  also have "groupby_sorted key d = runs_by key d"
    using sd "2.IH" by (simp only: d_def)
  finally have "groupby_sorted key (x # xs) = (x # t) # runs_by key d"
    by (simp only: xs)
  then show ?case
    by (simp only: runs_by.simps t_def d_def)
qed


lemma tagged_from_Nil [simp]: "tagged_from p a [] = []"
  by (simp add: tagged_from_def)

lemma tagged_from_Cons:
  "tagged_from p a (x # xs) =
     (a + (if p \<noteq> Some (exercise_done x) then 1 else 0), x)
       # tagged_from (Some (exercise_done x))
           (a + (if p \<noteq> Some (exercise_done x) then 1 else 0)) xs"
  by (simp add: tagged_from_def)

lemma tagged_from_same_run:
  "\<forall>r\<in>set t. exercise_done r = b \<Longrightarrow>
   tagged_from (Some b) a (t @ rest) = map (Pair a) t @ tagged_from (Some b) a rest"
  by (induction t) (simp_all add: tagged_from_Cons)

lemma tagged_from_ge: "gr \<in> set (tagged_from p a rows) \<Longrightarrow> a \<le> fst gr"
proof (induction rows arbitrary: p a)
  case Nil
  then show ?case by simp
next
  case (Cons x xs)
  from Cons.prems Cons.IH show ?case
    by (fastforce simp: tagged_from_Cons split: if_splits)
qed

lemma tagged_from_gt:
  assumes "rows = [] \<or> exercise_done (hd rows) \<noteq> b"
    and "gr \<in> set (tagged_from (Some b) a rows)"
  shows "a < fst gr"
proof (cases rows)
  case Nil
  with assms show ?thesis by simp
next
  case (Cons x xs)
  with assms(1) have ne: "exercise_done x \<noteq> b" by simp
  from assms(2) Cons ne
  have "gr = (a + 1, x) \<or> gr \<in> set (tagged_from (Some (exercise_done x)) (a + 1) xs)"
    by (auto simp: tagged_from_Cons)
  then show ?thesis
    using tagged_from_ge [of gr "Some (exercise_done x)" "a + 1" xs] by auto
qed

lemma sorted_tagged_from: "sorted (map fst (tagged_from p a rows))"
proof (induction rows arbitrary: p a)
  case Nil
  then show ?case by simp
next
  case (Cons x xs)
  show ?case
    using Cons.IH tagged_from_ge
    by (fastforce simp: tagged_from_Cons)
qed

lemma map_snd_tagged_from [simp]: "map snd (tagged_from p a rows) = rows"
  by (simp add: tagged_from_def)


lemma tagged_miss_runs:
  "map (map snd)
     (runs_by fst (filter (\<lambda>(g, r). exercise_done r = False) (tagged_from p a rows)))
   = filter (\<lambda>b. \<not> exercise_done (hd b)) (runs_by exercise_done rows)"
proof (induction "length rows" arbitrary: rows p a rule: less_induct)
  case less
  show ?case
  proof (cases rows)
    case Nil
    then show ?thesis by simp
  next
    case (Cons x xs)
    define t where "t = takeWhile (\<lambda>y. exercise_done y = exercise_done x) xs"
    define d where "d = dropWhile (\<lambda>y. exercise_done y = exercise_done x) xs"
    define a' where "a' = a + (if p \<noteq> Some (exercise_done x) then 1 else 0)"
    define rest where
      "rest = filter (\<lambda>(g, r). exercise_done r = False) (tagged_from (Some (exercise_done x)) a' d)"
    have xs: "t @ d = xs" by (simp add: t_def d_def)
    have tk: "\<forall>r\<in>set t. exercise_done r = exercise_done x"
      unfolding t_def by (auto dest: set_takeWhileD)
    have hd: "d = [] \<or> exercise_done (hd d) \<noteq> exercise_done x"
      unfolding d_def using hd_dropWhile [of "\<lambda>y. exercise_done y = exercise_done x" xs] by blast
    have "length d < length rows"
      unfolding d_def Cons by (simp add: length_dropWhile_le less_Suc_eq_le)
    then have IH: "map (map snd) (runs_by fst rest)
                   = filter (\<lambda>b. \<not> exercise_done (hd b)) (runs_by exercise_done d)"
      unfolding rest_def by (rule less.hyps)
    have tg: "tagged_from p a rows
              = (a', x) # map (Pair a') t @ tagged_from (Some (exercise_done x)) a' d"
    proof -
      have "tagged_from p a (x # t @ d)
            = (a', x) # tagged_from (Some (exercise_done x)) a' (t @ d)"
        by (simp only: tagged_from_Cons a'_def)
      also have "tagged_from (Some (exercise_done x)) a' (t @ d)
            = map (Pair a') t @ tagged_from (Some (exercise_done x)) a' d"
        using tk by (rule tagged_from_same_run)
      finally show ?thesis by (simp only: Cons xs)
    qed
    have rs: "runs_by exercise_done rows = (x # t) # runs_by exercise_done d"
      by (simp only: Cons runs_by.simps t_def d_def)
    have rest_gt: "\<forall>z\<in>set rest. fst z \<noteq> a'"
    proof
      fix z assume "z \<in> set rest"
      then have "z \<in> set (tagged_from (Some (exercise_done x)) a' d)"
        by (simp add: rest_def)
      with hd have "a' < fst z" by (rule tagged_from_gt)
      then show "fst z \<noteq> a'" by simp
    qed
    show ?thesis
    proof (cases "exercise_done x")
      case True
      have "filter (\<lambda>(g, r). exercise_done r = False) (map (Pair a') t) = []"
        using tk True by (auto simp: filter_empty_conv)
      then have f: "filter (\<lambda>(g, r). exercise_done r = False) (tagged_from p a rows) = rest"
        using True by (simp add: tg rest_def)
      have "map (map snd)
              (runs_by fst (filter (\<lambda>(g, r). exercise_done r = False) (tagged_from p a rows)))
            = filter (\<lambda>b. \<not> exercise_done (hd b)) (runs_by exercise_done d)"
        by (simp only: f IH)
      also have "\<dots> = filter (\<lambda>b. \<not> exercise_done (hd b)) (runs_by exercise_done rows)"
        using True by (simp add: rs)
      finally show ?thesis .
    next
      case False
      have "filter (\<lambda>(g, r). exercise_done r = False) (map (Pair a') t) = map (Pair a') t"
        using tk False by (auto simp: filter_id_conv)
      then have f: "filter (\<lambda>(g, r). exercise_done r = False) (tagged_from p a rows)
                 = (a', x) # map (Pair a') t @ rest"
        using False by (simp add: tg rest_def)
      have r1: "runs_by fst ((a', x) # map (Pair a') t @ rest)
            = ((a', x) # map (Pair a') t) # runs_by fst rest"
        using rest_gt by (intro runs_by_append_run) auto
      have "map (map snd)
              (runs_by fst (filter (\<lambda>(g, r). exercise_done r = False) (tagged_from p a rows)))
            = map (map snd) (((a', x) # map (Pair a') t) # runs_by fst rest)"
        by (simp only: f r1)
      also have "\<dots> = (x # t) # map (map snd) (runs_by fst rest)"
        by (simp add: comp_def)
      also have "\<dots> = (x # t) # filter (\<lambda>b. \<not> exercise_done (hd b)) (runs_by exercise_done d)"
        by (simp only: IH)
      also have "\<dots> = filter (\<lambda>b. \<not> exercise_done (hd b)) (runs_by exercise_done rows)"
        using False by (simp add: rs)
      finally show ?thesis .
    qed
  qed
qed


lemma zip_miss_groups: "zip (miss_groups df) df = tagged_from None 0 df"
  by (simp add: miss_groups_def tagged_from_def)

lemma miss_blocks_runs:
  "miss_blocks df
     = runs_by fst (filter (\<lambda>(g, r). exercise_done r = False) (tagged_from None 0 df))"
  unfolding miss_blocks_def zip_miss_groups
  by (intro groupby_sorted_runs_by sorted_filter sorted_tagged_from)

lemma miss_blocks_nonempty: "grp \<in> set (miss_blocks df) \<Longrightarrow> grp \<noteq> []"
  unfolding miss_blocks_runs by (rule runs_by_nonempty)

lemma miss_blocks_spec: "map (map snd) (miss_blocks df) = spec_miss_blocks df"
  unfolding miss_blocks_runs spec_miss_blocks_def by (rule tagged_miss_runs)

lemma dropout_dates_spec: "dropout_dates thr df = spec_death_dates thr df"
proof -
  have "spec_death_dates thr df
        = map (\<lambda>b. date (hd b))
            (filter (\<lambda>b. thr \<le> int (length b)) (map (map snd) (miss_blocks df)))"
    by (simp only: spec_death_dates_def miss_blocks_spec)
  also have "\<dots> = map (\<lambda>g. date (hd (map snd g)))
                     (filter (\<lambda>g. thr \<le> int (length g)) (miss_blocks df))"
    by (simp add: filter_map comp_def)
  also have "\<dots> = map (\<lambda>g. date (snd (hd g)))
                     (filter (\<lambda>g. thr \<le> int (length g)) (miss_blocks df))"
    by (rule map_cong) (auto simp: hd_map dest: miss_blocks_nonempty)
  finally show ?thesis by (simp add: dropout_dates_def)
qed

lemma sorted_map_hd_blocks:
  fixes f :: "'a \<Rightarrow> int"
  assumes "sorted (map f (concat bs))" and "\<forall>b\<in>set bs. b \<noteq> []"
  shows "sorted (map (\<lambda>b. f (hd b)) bs)"
  using assms
proof (induction bs)
  case Nil
  then show ?case by simp
next
  case (Cons b bs)
  from Cons.prems have le: "\<forall>x\<in>set b. \<forall>y\<in>set (concat bs). f x \<le> f y"
    and s: "sorted (map f (concat bs))"
    by (auto simp: sorted_append)
  from Cons.prems have ne: "b \<noteq> []" "\<forall>b\<in>set bs. b \<noteq> []" by auto
  have "f (hd b) \<le> f (hd b')" if "b' \<in> set bs" for b'
  proof -
    from that ne have "hd b' \<in> set (concat bs)" by (auto intro!: bexI [of _ b'])
    moreover from ne have "hd b \<in> set b" by simp
    ultimately show ?thesis using le by blast
  qed
  with Cons.IH [OF s ne(2)] show ?case by auto
qed

lemma sorted_spec_death_dates:
  assumes "sorted (map date df)"
  shows "sorted (spec_death_dates thr df)"
proof -
  have "sorted (map (\<lambda>b. date (hd b)) (runs_by exercise_done df))"
    using assms by (intro sorted_map_hd_blocks) (auto simp: concat_runs_by dest: runs_by_nonempty)
  then show ?thesis
    unfolding spec_death_dates_def spec_miss_blocks_def
    by (intro sorted_filter)
qed

lemma sort_dropout_dates:
  assumes "sorted (map date df)"
  shows "sort (dropout_dates thr df) = spec_death_dates thr df"
  unfolding dropout_dates_spec
  using sorted_spec_death_dates [OF assms, of thr]
  by (rule sort_key_id_if_sorted [where f = "\<lambda>k. k", simplified])


subsection \<open>The lives of \<^verbatim>\<open>prepare_data\<close>\<close>

lemma burnout_prepare_data_lives:
  assumes "df0 \<noteq> []"
  shows "burnout_prepare_data pd thr df0
         = Inr (List.map_filter (\<lambda>(s, e, ev). aggregate_period pd (sort_key date df0) s e ev)
                  (life_periods thr (sort_key date df0)))"
proof -
  have "sort_key date df0 \<noteq> []" using assms by (cases df0) auto
  then show ?thesis by (simp add: burnout_prepare_data_def Let_def)
qed

lemma next_success_first_active: "next_success df d = first_active_after df d"
  by (induction df) (auto simp: next_success_def first_active_after_def)

lemma summary_of_lives:
  "map (\<lambda>ep. (duration ep, event ep))
     (List.map_filter (\<lambda>(s, e, ev). aggregate_period pd df s e ev) ps)
   = episodes_of_spans df ps"
proof (induction ps)
  case Nil
  then show ?case by (simp add: List.map_filter_simps episodes_of_spans_def)
next
  case (Cons p ps)
  obtain s e ev where p: "p = (s, e, ev)" by (cases p)
  show ?case
    using Cons.IH
    by (simp add: p List.map_filter_simps aggregate_period_def episodes_of_spans_def
        rows_between_def loc_slice_def Let_def)
qed

subsection \<open>The segmentation of concrete histories\<close>

lemma date_enhance_row [simp]: "date (enhance_row pd df i) = date (df ! i)"
  by (simp add: enhance_row_def)

lemma exercise_done_enhance_row [simp]:
  "exercise_done (enhance_row pd df i) = exercise_done (df ! i)"
  by (simp add: enhance_row_def)

lemma date_day [simp]: "date (day d b) = 738885 + d"
  by (simp add: day_def)

lemma exercise_done_day [simp]: "exercise_done (day d b) = b"
  by (simp add: day_def)

lemma upt_3: "[0..<3] = [0, 1, 2::nat]"
  by code_simp

lemma upt_8: "[0..<8] = [0, 1, 2, 3, 4, 5, 6, 7::nat]"
  by code_simp

lemma upt_9: "[0..<9] = [0, 1, 2, 3, 4, 5, 6, 7, 8::nat]"
  by code_simp

lemma upt_11: "[0..<11] = [0, 1, 2, 3, 4, 5, 6, 7, 8, 9, 10::nat]"
  by code_simp

lemma sorted_enhance: "sort_key date (enhance pd xs) = enhance pd xs"
proof -
  have "map date (enhance pd xs) = map date (sort_key date xs)"
    by (rule nth_equalityI) (simp_all add: enhance_def nth_enhance_sorted)
  then have "sorted (map date (enhance pd xs))" by simp
  then show ?thesis by (rule sort_key_id_if_sorted)
qed

lemma enhance_Nil: "enhance pd [] = []"
  by (simp add: enhance_def enhance_sorted_def)

lemma enhance_nonempty: "xs \<noteq> [] \<Longrightarrow> enhance pd xs \<noteq> []"
  by (metis length_enhance length_0_conv)



lemma enhance_short_first_life:
  "enhance pd short_first_life = map (enhance_row pd short_first_life) [0, 1, 2, 3, 4, 5, 6, 7, 8]"
proof -
  have "sort_key date short_first_life = short_first_life"
    by (simp add: short_first_life_def)
  moreover have "length short_first_life = 9" by (simp add: short_first_life_def)
  ultimately show ?thesis by (simp add: enhance_def enhance_sorted_def upt_9)
qed

lemma deaths_short_first_life: "spec_death_dates 5 (enhance pd short_first_life) = [738887]"
  unfolding enhance_short_first_life
  by (simp add: spec_death_dates_def spec_miss_blocks_def short_first_life_def)

lemma enhance_two_lives:
  "enhance pd two_lives = map (enhance_row pd two_lives) [0, 1, 2, 3, 4, 5, 6, 7, 8, 9, 10]"
proof -
  have "sort_key date two_lives = two_lives"
    by (simp add: two_lives_def)
  moreover have "length two_lives = 11" by (simp add: two_lives_def)
  ultimately show ?thesis by (simp add: enhance_def enhance_sorted_def upt_11)
qed

lemma deaths_two_lives: "spec_death_dates 5 (enhance pd two_lives) = [738889]"
  unfolding enhance_two_lives
  by (simp add: spec_death_dates_def spec_miss_blocks_def two_lives_def)

lemma enhance_no_return:
  "enhance pd no_return = map (enhance_row pd no_return) [0, 1, 2, 3, 4, 5, 6, 7]"
proof -
  have "sort_key date no_return = no_return"
    by (simp add: no_return_def)
  moreover have "length no_return = 8" by (simp add: no_return_def)
  ultimately show ?thesis by (simp add: enhance_def enhance_sorted_def upt_8)
qed

lemma deaths_no_return: "spec_death_dates 5 (enhance pd no_return) = [738889]"
  unfolding enhance_no_return
  by (simp add: spec_death_dates_def spec_miss_blocks_def no_return_def)

lemma enhance_history_a:
  "enhance pd history_a = map (enhance_row pd history_a) [0, 1, 2]"
proof -
  have "sort_key date history_a = history_a"
    by (simp add: history_a_def)
  moreover have "length history_a = 3" by (simp add: history_a_def)
  ultimately show ?thesis by (simp add: enhance_def enhance_sorted_def upt_3)
qed

lemma deaths_history_a: "spec_death_dates 5 (enhance pd history_a) = []"
  unfolding enhance_history_a
  by (simp add: spec_death_dates_def spec_miss_blocks_def history_a_def)

subsection \<open>The spans are disjoint and fit into the history\<close>

lemma date_le_last:
  assumes "sorted (map date df)" and "r \<in> set df"
  shows "date r \<le> date (last df)"
proof -
  from assms(2) have ne: "df \<noteq> []" by auto
  then have df: "df = butlast df @ [last df]" by simp
  from assms(1) have "sorted (map date (butlast df @ [last df]))" using df by simp
  then have "\<forall>x\<in>set (butlast df). date x \<le> date (last df)"
    by (simp add: sorted_append)
  moreover from assms(2) have "r \<in> set (butlast df) \<or> r = last df"
    by (metis df Un_iff empty_iff empty_set set_ConsD set_append)
  ultimately show ?thesis by auto
qed

lemma next_success_bounds:
  assumes "sorted (map date df)" and "next_success df d = Some s"
  shows "d < s \<and> s \<le> date (last df)"
proof -
  from assms(2) obtain r rs where
    f: "filter (\<lambda>r. exercise_done r = True) (filter (\<lambda>r. date r > d) df) = r # rs"
    and s: "s = date r"
    by (auto simp: next_success_def split: list.splits)
  from f have "r \<in> set (filter (\<lambda>r. exercise_done r = True) (filter (\<lambda>r. date r > d) df))"
    by simp
  then have "r \<in> set df" "d < date r" by auto
  with assms(1) s show ?thesis by (auto dest: date_le_last)
qed

lemma walk_deaths_spans:
  assumes "sorted (map date df)"
    and "\<forall>d\<in>set ds. d \<le> date (last df)"
    and "cs \<le> date (last df)"
    and "walk_deaths df cs ds = (ps, c)"
  shows "(\<forall>p\<in>set ps. cs \<le> span_start p \<and> span_start p < span_stop p
                      \<and> span_stop p \<le> date (last df))
       \<and> sorted_wrt (\<lambda>p q. span_stop p < span_start q) ps
       \<and> (\<forall>cs'. c = Some cs' \<longrightarrow>
              cs \<le> cs' \<and> cs' \<le> date (last df) \<and> (\<forall>p\<in>set ps. span_stop p < cs'))
       \<and> sum_list (map span_days ps)
            + (case c of Some cs' \<Rightarrow> date (last df) - cs' | None \<Rightarrow> 0)
          \<le> date (last df) - cs"
  using assms(2-4)
proof (induction ds arbitrary: cs ps c)
  case Nil
  then show ?case by auto
next
  case (Cons d ds)
  let ?L = "date (last df)"
  show ?case
  proof (cases "d > cs")
    case False
    with Cons.prems have "walk_deaths df cs ds = (ps, c)" by simp
    with Cons.IH [of cs ps c] Cons.prems show ?thesis by simp
  next
    case True
    from Cons.prems have dL: "d \<le> ?L" by simp
    show ?thesis
    proof (cases "next_success df d")
      case None
      with True Cons.prems have "ps = [(cs, d, 1)]" "c = None" by auto
      with True dL show ?thesis
        by (simp add: span_start_def span_stop_def span_days_def)
    next
      case (Some ns)
      with assms(1) have ns: "d < ns" "ns \<le> ?L" by (auto dest: next_success_bounds)
      obtain ps' c' where w: "walk_deaths df ns ds = (ps', c')"
        by (cases "walk_deaths df ns ds")
      with True Some Cons.prems have ps: "ps = (cs, d, 1) # ps'" and c: "c = c'" by auto
      from Cons.prems have "\<forall>d\<in>set ds. d \<le> ?L" by simp
      from Cons.IH [OF this ns(2) w]
      have a: "\<forall>p\<in>set ps'. ns \<le> span_start p \<and> span_start p < span_stop p \<and> span_stop p \<le> ?L"
        and b: "sorted_wrt (\<lambda>p q. span_stop p < span_start q) ps'"
        and cc: "\<forall>cs'. c' = Some cs' \<longrightarrow> ns \<le> cs' \<and> cs' \<le> ?L \<and> (\<forall>p\<in>set ps'. span_stop p < cs')"
        and dd: "sum_list (map span_days ps')
                 + (case c' of Some cs' \<Rightarrow> ?L - cs' | None \<Rightarrow> 0) \<le> ?L - ns"
        by blast+
      have h: "span_start (cs, d, 1) = cs" "span_stop (cs, d, 1) = d" "span_days (cs, d, 1) = d - cs"
        by (simp_all add: span_start_def span_stop_def span_days_def)
      have 1: "\<forall>p\<in>set ps. cs \<le> span_start p \<and> span_start p < span_stop p \<and> span_stop p \<le> ?L"
        using a True dL ns unfolding ps by (auto simp: h)
      have 2: "sorted_wrt (\<lambda>p q. span_stop p < span_start q) ps"
        using a b ns unfolding ps by (auto simp: h)
      have 3: "\<forall>cs'. c = Some cs' \<longrightarrow> cs \<le> cs' \<and> cs' \<le> ?L \<and> (\<forall>p\<in>set ps. span_stop p < cs')"
        using cc True ns unfolding ps c by (auto simp: h)
      have 4: "sum_list (map span_days ps)
                 + (case c of Some cs' \<Rightarrow> ?L - cs' | None \<Rightarrow> 0) \<le> ?L - cs"
        using dd ns unfolding ps c by (simp add: h)
      from 1 2 3 4 show ?thesis by blast
    qed
  qed
qed


lemma spec_death_dates_in_frame: "d \<in> set (spec_death_dates thr df) \<Longrightarrow> d \<in> date ` set df"
proof -
  assume "d \<in> set (spec_death_dates thr df)"
  then obtain b where b: "b \<in> set (runs_by exercise_done df)" and d: "d = date (hd b)"
    by (auto simp: spec_death_dates_def spec_miss_blocks_def)
  from b have "b \<noteq> []" by (rule runs_by_nonempty)
  then have "hd b \<in> set b" by simp
  with b have "hd b \<in> set (concat (runs_by exercise_done df))" by auto
  then have "hd b \<in> set df" by (simp only: concat_runs_by)
  with d show ?thesis by blast
qed

lemma life_periods_spans:
  assumes s: "sorted (map date df)" and ne: "df \<noteq> []"
  shows "(\<forall>p\<in>set (life_periods thr df).
            date (hd df) \<le> span_start p \<and> span_start p \<le> span_stop p
          \<and> span_stop p \<le> date (last df))
       \<and> sorted_wrt (\<lambda>p q. span_stop p < span_start q) (life_periods thr df)
       \<and> sum_list (map span_days (life_periods thr df)) \<le> date (last df) - date (hd df)"
proof -
  let ?L = "date (last df)"
  let ?F = "date (hd df)"
  from ne have "hd df \<in> set df" by simp
  with s have FL: "?F \<le> ?L" by (rule date_le_last)
  show ?thesis
  proof (cases "spec_death_dates thr df = []")
    case True
    then have "life_periods thr df = [(?F, ?L, 0)]"
      by (simp add: life_periods_def sort_dropout_dates [OF s])
    with FL show ?thesis
      by (simp add: span_start_def span_stop_def span_days_def)
  next
    case False
    obtain ps c where w: "walk_deaths df ?F (spec_death_dates thr df) = (ps, c)"
      by (cases "walk_deaths df ?F (spec_death_dates thr df)")
    have dl: "\<forall>d\<in>set (spec_death_dates thr df). d \<le> ?L"
      using s by (auto dest!: spec_death_dates_in_frame intro: date_le_last)
    from walk_deaths_spans [OF s dl FL w]
    have a: "\<forall>p\<in>set ps. ?F \<le> span_start p \<and> span_start p < span_stop p \<and> span_stop p \<le> ?L"
      and b: "sorted_wrt (\<lambda>p q. span_stop p < span_start q) ps"
      and cc: "\<forall>cs'. c = Some cs' \<longrightarrow> ?F \<le> cs' \<and> cs' \<le> ?L \<and> (\<forall>p\<in>set ps. span_stop p < cs')"
      and dd: "sum_list (map span_days ps)
               + (case c of Some cs' \<Rightarrow> ?L - cs' | None \<Rightarrow> 0) \<le> ?L - ?F"
      by blast+
    have lp: "life_periods thr df
              = ps @ (case c of
                        Some cs \<Rightarrow> if cs \<le> ?L then [(cs, ?L, 0)] else []
                      | None \<Rightarrow> [])"
      using False by (simp add: life_periods_def sort_dropout_dates [OF s] w)
    show ?thesis
    proof (cases c)
      case None
      with a b dd show ?thesis unfolding lp by auto
    next
      case (Some cs')
      with cc have c': "?F \<le> cs'" "cs' \<le> ?L" "\<forall>p\<in>set ps. span_stop p < cs'" by auto
      have h: "span_start (cs', ?L, 0) = cs'" "span_stop (cs', ?L, 0) = ?L"
        "span_days (cs', ?L, 0) = ?L - cs'"
        by (simp_all add: span_start_def span_stop_def span_days_def)
      have lp': "life_periods thr df = ps @ [(cs', ?L, 0)]"
        using lp Some c'(2) by simp
      have 1: "\<forall>p\<in>set (ps @ [(cs', ?L, 0)]).
                 ?F \<le> span_start p \<and> span_start p \<le> span_stop p \<and> span_stop p \<le> ?L"
        using a c' by (auto simp: h)
      have 2: "sorted_wrt (\<lambda>p q. span_stop p < span_start q) (ps @ [(cs', ?L, 0)])"
        using b c'(3) by (auto simp: sorted_wrt_append h)
      have 3: "sum_list (map span_days (ps @ [(cs', ?L, 0)])) \<le> ?L - ?F"
        using dd Some by (simp add: h)
      from 1 2 3 show ?thesis unfolding lp' by blast
    qed
  qed
qed

lemma duration_of_lives:
  "map duration (List.map_filter (\<lambda>(s, e, ev). aggregate_period pd df s e ev) ps)
   = map span_days (filter (span_kept df) ps)"
proof (induction ps)
  case Nil
  then show ?case by (simp add: List.map_filter_simps)
next
  case (Cons p ps)
  obtain s e ev where p: "p = (s, e, ev)" by (cases p)
  show ?case
    using Cons.IH
    by (simp add: p List.map_filter_simps aggregate_period_def span_kept_def span_start_def
        span_stop_def span_days_def Let_def)
qed

lemma sum_list_split_filter:
  fixes f :: "'a \<Rightarrow> int"
  shows "sum_list (map f (filter P xs)) + sum_list (map f (filter (\<lambda>x. \<not> P x) xs))
         = sum_list (map f xs)"
  by (induction xs) auto


subsection \<open>The loop of \<^verbatim>\<open>prepare_data\<close> is the amended walk\<close>

lemma walk_deaths_amended:
  assumes "sorted (map date df)" and "cs \<le> date (last df)"
  shows "(case walk_deaths df cs ds of
            (ps, c) \<Rightarrow>
              ps @ (case c of
                      Some cs' \<Rightarrow> if cs' \<le> date (last df) then [(cs', date (last df), 0)] else []
                    | None \<Rightarrow> []))
         = amended_spans df cs ds"
  using assms(2)
proof (induction ds arbitrary: cs)
  case Nil
  then show ?case by simp
next
  case (Cons d ds)
  show ?case
  proof (cases "d > cs")
    case False
    with Cons.IH [OF Cons.prems] show ?thesis by simp
  next
    case True
    show ?thesis
    proof (cases "next_success df d")
      case None
      with True show ?thesis
        by (simp add: next_success_first_active [symmetric])
    next
      case (Some ns)
      with assms(1) have "ns \<le> date (last df)" by (auto dest: next_success_bounds)
      from Cons.IH [OF this] True Some show ?thesis
        by (simp add: next_success_first_active [symmetric] split: prod.splits)
    qed
  qed
qed

lemma life_periods_amended:
  assumes "sorted (map date df)" and "df \<noteq> []"
  shows "life_periods thr df = amended_spans df (date (hd df)) (spec_death_dates thr df)"
proof -
  from assms(2) have "hd df \<in> set df" by simp
  with assms(1) have FL: "date (hd df) \<le> date (last df)" by (rule date_le_last)
  show ?thesis
  proof (cases "spec_death_dates thr df = []")
    case True
    then show ?thesis by (simp add: life_periods_def sort_dropout_dates [OF assms(1)])
  next
    case False
    then show ?thesis
      using walk_deaths_amended [OF assms(1) FL, of "spec_death_dates thr df"]
      by (simp add: life_periods_def sort_dropout_dates [OF assms(1)] split: prod.splits)
  qed
qed

lemma prepare_data_summary:
  assumes "df0 \<noteq> []"
  shows "episode_summary (burnout_prepare_data pd thr df0)
         = Inr (episodes_of_spans (sort_key date df0)
                  (amended_spans (sort_key date df0) (date (hd (sort_key date df0)))
                     (spec_death_dates thr (sort_key date df0))))"
proof -
  have ne: "sort_key date df0 \<noteq> []" using assms by (cases df0) auto
  have s: "sorted (map date (sort_key date df0))" by simp
  show ?thesis
    by (simp add: burnout_prepare_data_lives [OF assms] episode_summary_def summary_of_lives
        life_periods_amended [OF s ne])
qed

subsection \<open>The amended walk on concrete histories\<close>




lemma spans_short_first_life:
  "amended_spans (enhance pd short_first_life) (date (hd (enhance pd short_first_life))) [738887]
     = [(738886, 738887, 1), (738892, 738894, 0)]"
  unfolding enhance_short_first_life
  by (simp add: short_first_life_def first_active_after_def)



lemma spans_two_lives:
  "amended_spans (enhance pd two_lives) (date (hd (enhance pd two_lives))) [738889]
     = [(738886, 738889, 1), (738894, 738896, 0)]"
  unfolding enhance_two_lives
  by (simp add: two_lives_def first_active_after_def)

lemma episodes_two_lives:
  "episodes_of_spans (enhance pd two_lives) [(738886, 738889, 1), (738894, 738896, 0)]
     = [(3, 1), (2, 0)]"
  unfolding enhance_two_lives
  by (simp add: two_lives_def episodes_of_spans_def rows_between_def)

lemma summary_two_lives:
  "episode_summary (burnout_prepare_data pd 5 (enhance pd two_lives)) = Inr [(3, 1), (2, 0)]"
proof -
  have "enhance pd two_lives \<noteq> []" by (simp add: enhance_two_lives)
  from prepare_data_summary [OF this, of pd 5] show ?thesis
    by (simp only: sorted_enhance deaths_two_lives spans_two_lives episodes_two_lives)
qed

lemma spans_no_return:
  "amended_spans (enhance pd no_return) (date (hd (enhance pd no_return))) [738889]
     = [(738886, 738889, 1)]"
  unfolding enhance_no_return
  by (simp add: no_return_def first_active_after_def)

lemma episodes_no_return:
  "episodes_of_spans (enhance pd no_return) [(738886, 738889, 1)]
     = [(3, 1)]"
  unfolding enhance_no_return
  by (simp add: no_return_def episodes_of_spans_def rows_between_def)

lemma summary_no_return:
  "episode_summary (burnout_prepare_data pd 5 (enhance pd no_return)) = Inr [(3, 1)]"
proof -
  have "enhance pd no_return \<noteq> []" by (simp add: enhance_no_return)
  from prepare_data_summary [OF this, of pd 5] show ?thesis
    by (simp only: sorted_enhance deaths_no_return spans_no_return episodes_no_return)
qed

lemma spans_history_a:
  "amended_spans (enhance pd history_a) (date (hd (enhance pd history_a))) []
     = [(738886, 738888, 0)]"
  unfolding enhance_history_a
  by (simp add: history_a_def first_active_after_def)

lemma episodes_history_a:
  "episodes_of_spans (enhance pd history_a) [(738886, 738888, 0)]
     = [(2, 0)]"
  unfolding enhance_history_a
  by (simp add: history_a_def episodes_of_spans_def rows_between_def)

lemma summary_history_a:
  "episode_summary (burnout_prepare_data pd 5 (enhance pd history_a)) = Inr [(2, 0)]"
proof -
  have "enhance pd history_a \<noteq> []" by (simp add: enhance_history_a)
  from prepare_data_summary [OF this, of pd 5] show ?thesis
    by (simp only: sorted_enhance deaths_history_a spans_history_a episodes_history_a)
qed



lemma life_periods_short_first_life:
  "life_periods 5 (enhance pd short_first_life)
     = [(738886, 738887, 1), (738892, 738894, 0)]"
proof -
  have s: "sorted (map date (enhance pd short_first_life))"
    using sorted_enhance [of pd short_first_life] by (metis sorted_sort_key)
  have ne: "enhance pd short_first_life \<noteq> []" by (simp add: enhance_short_first_life)
  show ?thesis
    by (simp only: life_periods_amended [OF s ne] deaths_short_first_life
        spans_short_first_life)
qed

subsection \<open>Claims about the segmentation\<close>




lemma burnout_prepare_data_returns:
  "(\<exists>eps. burnout_prepare_data pd thr df0 = Inr eps) = (df0 \<noteq> [])"
proof -
  have "(sort_key date df0 = []) = (df0 = [])" by (cases df0) auto
  then show ?thesis by (auto simp: burnout_prepare_data_def Let_def)
qed

text \<open>
  Claim C8. Whenever \<^verbatim>\<open>prepare_data\<close> returns an episode set (it does on every table that
  is not empty), the durations of the episodes are the day lengths of the kept spans and
  are not negative; the spans it cuts, kept or discarded, lie in chronological order with
  each one ending before the next starts, so no two episodes overlap; and the durations
  of the episodes together with the day lengths of the discarded spans are at most the
  days from the first to the last date of the table.
\<close>

theorem episodes_disjoint_and_bounded:
  fixes pd :: numerics and thr :: int and df0 :: "FeatureRow list" and eps :: "Episode list"
  defines "df \<equiv> sort_key date df0"
  defines "spans \<equiv> life_periods thr df"
  shows "(df0 \<noteq> [] \<longrightarrow> (\<exists>eps. burnout_prepare_data pd thr df0 = Inr eps))
       \<and> (burnout_prepare_data pd thr df0 = Inr eps \<longrightarrow>
            map duration eps = map span_days (filter (span_kept df) spans)
          \<and> (\<forall>ep\<in>set eps. 0 \<le> duration ep)
          \<and> sum_list (map duration eps)
               + sum_list (map span_days (filter (\<lambda>p. \<not> span_kept df p) spans))
             \<le> date (last df) - date (hd df)
          \<and> sorted_wrt (\<lambda>p q. span_stop p < span_start q) spans
          \<and> sorted_wrt (\<lambda>p q. span_stop p < span_start q) (filter (span_kept df) spans)
          \<and> (\<forall>p\<in>set spans. span_start p \<le> span_stop p))"
proof (intro conjI impI)
  assume "df0 \<noteq> []"
  then show "\<exists>eps. burnout_prepare_data pd thr df0 = Inr eps"
    by (simp add: burnout_prepare_data_returns)
next
  assume r: "burnout_prepare_data pd thr df0 = Inr eps"
  then have ne0: "df0 \<noteq> []" using burnout_prepare_data_returns [of pd thr df0] by auto
  have s: "sorted (map date df)" by (simp add: df_def)
  have ne: "df \<noteq> []" using ne0 unfolding df_def by (cases df0) auto
  from life_periods_spans [OF s ne, of thr]
  have a: "\<forall>p\<in>set spans. span_start p \<le> span_stop p"
    and b: "sorted_wrt (\<lambda>p q. span_stop p < span_start q) spans"
    and c: "sum_list (map span_days spans) \<le> date (last df) - date (hd df)"
    unfolding spans_def by blast+
  have 1: "eps = List.map_filter (\<lambda>(s, e, ev). aggregate_period pd df s e ev) spans"
    using ne r by (simp add: burnout_prepare_data_def Let_def spans_def df_def)
  show 2: "map duration eps = map span_days (filter (span_kept df) spans)"
    unfolding 1 by (rule duration_of_lives)
  have "\<forall>d\<in>set (map duration eps). 0 \<le> d"
    unfolding 2 using a by (auto simp: span_days_def)
  then show "\<forall>ep\<in>set eps. 0 \<le> duration ep" by simp
  show "sum_list (map duration eps)
             + sum_list (map span_days (filter (\<lambda>p. \<not> span_kept df p) spans))
           \<le> date (last df) - date (hd df)"
    unfolding 2 sum_list_split_filter using c .
  show "sorted_wrt (\<lambda>p q. span_stop p < span_start q) spans" by (rule b)
  show "sorted_wrt (\<lambda>p q. span_stop p < span_start q) (filter (span_kept df) spans)"
    using b by (rule sorted_wrt_filter)
  show "\<forall>p\<in>set spans. span_start p \<le> span_stop p" by (rule a)
qed

theorem episodes_disjoint_and_bounded_witness:
  "enhance exact_numerics short_first_life \<noteq> []
 \<and> life_periods 5 (enhance exact_numerics short_first_life)
     = [(738886, 738887, 1), (738892, 738894, 0)]
 \<and> sorted_wrt (\<lambda>p q. span_stop p < span_start q)
      (life_periods 5 (enhance exact_numerics short_first_life))
 \<and> (\<exists>eps. burnout_prepare_data exact_numerics 5 (enhance exact_numerics short_first_life)
              = Inr eps
        \<and> map duration eps = [2]
        \<and> sum_list (map duration eps) + 1
             \<le> date (last (enhance exact_numerics short_first_life))
               - date (hd (enhance exact_numerics short_first_life)))"
proof -
  let ?df = "enhance exact_numerics short_first_life"
  have ne: "?df \<noteq> []"
    by (simp add: enhance_short_first_life)
  have k: "\<not> span_kept ?df (738886, 738887, 1)"
    "span_kept ?df (738892, 738894, 0)"
    unfolding enhance_short_first_life
    by (simp_all add: span_kept_def span_start_def span_stop_def loc_slice_def
        short_first_life_def)
  from burnout_prepare_data_returns [of exact_numerics 5 ?df] ne
  obtain eps0 where r: "burnout_prepare_data exact_numerics 5 ?df = Inr eps0"
    by auto
  from episodes_disjoint_and_bounded
    [where pd = exact_numerics and thr = 5 and ?df0.0 = ?df and eps = eps0] r ne
  obtain eps where e: "burnout_prepare_data exact_numerics 5 ?df = Inr eps"
      "map duration eps = [2]"
      "sum_list (map duration eps) + 1 \<le> date (last ?df) - date (hd ?df)"
    and s: "sorted_wrt (\<lambda>p q. span_stop p < span_start q) (life_periods 5 ?df)"
    by (auto simp: sorted_enhance life_periods_short_first_life k span_days_def span_start_def
        span_stop_def)
  from e have "\<exists>eps. burnout_prepare_data exact_numerics 5 ?df = Inr eps
        \<and> map duration eps = [2]
        \<and> sum_list (map duration eps) + 1 \<le> date (last ?df) - date (hd ?df)"
    by (intro exI [of _ eps] conjI)
  with ne s life_periods_short_first_life [of exact_numerics] show ?thesis by (intro conjI)
qed

subsection \<open>Training on too little data\<close>

lemma length_map_filter_zip_Some:
  "length xs = length bs \<Longrightarrow>
   List.map_filter (\<lambda>(r, t). map_option (\<lambda>b. (r, b)) t) (zip xs (map Some bs)) = zip xs bs"
  by (induction xs bs rule: list_induct2) (auto simp: List.map_filter_simps)

lemma shift_back_snoc:
  "ys \<noteq> [] \<Longrightarrow> shift_back ys = map Some (tl ys) @ [None]"
  by (cases ys) (auto simp: shift_back_def)

lemma adherence_prepare_data_rows:
  assumes "df \<noteq> []"
  shows "\<exists>X y. adherence_prepare_data df = Inr (X, y) \<and> length X = length df - 1
            \<and> length y = length df - 1"
proof -
  obtain xs x where df: "df = xs @ [x]" using assms by (cases df rule: rev_cases) auto
  define bs where "bs = tl (map exercise_done df)"
  have sb: "shift_back (map exercise_done df) = map Some bs @ [None]"
    unfolding bs_def using assms by (intro shift_back_snoc) simp
  have len: "length xs = length bs" by (simp add: df bs_def)
  have "zip df (shift_back (map exercise_done df)) = zip df (map Some bs @ [None])"
    by (simp only: sb)
  also have "\<dots> = zip xs (map Some bs) @ [(x, None)]"
    using len by (simp add: df)
  finally have "List.map_filter (\<lambda>(r, t). map_option (\<lambda>b. (r, b)) t)
          (zip df (shift_back (map exercise_done df))) = zip xs bs"
    using length_map_filter_zip_Some [OF len]
    by (simp add: List.map_filter_def)
  then show ?thesis using assms len
    by (simp add: adherence_prepare_data_def Let_def df)
qed

lemma adherence_train_insufficient:
  assumes "adherence_prepare_data df = Inr (X, y)" and "length X < 10"
  shows "adherence_train lib a df =
           (Inr [''status'' \<mapsto> PyStr ''error'',
                 ''message'' \<mapsto> PyStr ''Not enough data to train''], a)"
  using assms by (simp add: adherence_train_def)

lemma adherence_train_status:
  assumes "fst (adherence_train lib a df) = Inr d"
  shows "(d ''status'' = Some (PyStr ''error''))
         = (\<exists>X y. adherence_prepare_data df = Inr (X, y) \<and> length X < 10)"
  using assms
  by (auto simp: adherence_train_def Let_def
      split: sum.splits prod.splits if_splits py_error.splits)

lemma burnout_train_insufficient:
  assumes "burnout_prepare_data (pandas lib) (dropout_threshold b) df = Inr eps" and "length eps < 2"
  shows "burnout_train lib b df =
           (Inr [''status'' \<mapsto> PyStr ''warning'',
                 ''message'' \<mapsto> PyStr ''Not enough streaks to train survival model''], b)"
  using assms by (simp add: burnout_train_def)

lemma burnout_train_status:
  assumes "fst (burnout_train lib b df) = Inr d"
  shows "(d ''status'' = Some (PyStr ''warning''))
         = (\<exists>eps. burnout_prepare_data (pandas lib) (dropout_threshold b) df = Inr eps \<and> length eps < 2)"
  using assms
  by (auto simp: burnout_train_def Let_def split: sum.splits if_splits)

lemma burnout_train_failed_fit:
  assumes "burnout_prepare_data (pandas lib) (dropout_threshold b) df = Inr eps"
    and "\<not> length eps < 2"
    and "cph_fit lib (map survival_row eps) = Inl e"
  shows "burnout_train lib b df =
           (Inr [''status'' \<mapsto> PyStr ''error'', ''message'' \<mapsto> PyStr (error_str e)], b)"
  using assms by (simp add: burnout_train_def)

lemma anomaly_train_insufficient:
  assumes "length df < 14"
  shows "anomaly_train lib c df =
           (Inr [''status'' \<mapsto> PyStr ''error'', ''message'' \<mapsto> PyStr ''Need 2 weeks data''], c)"
  using assms by (simp add: anomaly_train_def)

lemma anomaly_train_status:
  assumes "fst (anomaly_train lib c df) = Inr d"
  shows "(d ''status'' = Some (PyStr ''error'')) = (length df < 14)"
  using assms
  by (auto simp: anomaly_train_def Let_def split: sum.splits if_splits)

lemma no_dropout_one_censored:
  assumes "df0 \<noteq> []" and "spec_death_dates thr (sort_key date df0) = []"
  shows "\<exists>eps. burnout_prepare_data pd thr df0 = Inr eps \<and> length eps \<le> 1
              \<and> (\<forall>ep\<in>set eps. event ep = 0)"
proof -
  let ?df = "sort_key date df0"
  have s: "sorted (map date ?df)" by simp
  have "life_periods thr ?df = [(date (hd ?df), date (last ?df), 0)]"
    using assms(2) by (simp add: life_periods_def sort_dropout_dates [OF s])
  then have "burnout_prepare_data pd thr df0
          = Inr (case aggregate_period pd ?df (date (hd ?df)) (date (last ?df)) 0 of
                   None \<Rightarrow> [] | Some ep \<Rightarrow> [ep])"
    by (simp add: burnout_prepare_data_lives [OF assms(1)] List.map_filter_simps
        split: option.splits)
  moreover have "event ep = 0" if "aggregate_period pd ?df s e 0 = Some ep" for s e ep
    using that by (auto simp: aggregate_period_def Let_def split: if_splits)
  ultimately show ?thesis
    by (auto split: option.splits)
qed

lemma burnout_train_error_after_fit:
  assumes "burnout_prepare_data (pandas lib) (dropout_threshold b) df = Inr eps"
    and "\<not> length eps < 2"
    and "cph_fit lib (map survival_row eps) = Inr fitted"
    and "cph_concordance_index lib fitted = Inl e"
  shows "burnout_train lib b df =
           (Inr [''status'' \<mapsto> PyStr ''error'', ''message'' \<mapsto> PyStr (error_str e)],
            b\<lparr>cph := Some fitted, is_trained := True\<rparr>)"
  using assms by (simp add: burnout_train_def)

lemma burnout_train_empty:
  "burnout_train lib b [] = (Inl (KeyError ''exercise_done''), b)"
  by (simp add: burnout_train_def burnout_prepare_data_def)


lemma prepare_data_two_lives:
  "\<exists>eps. burnout_prepare_data pd 5 (enhance pd two_lives) = Inr eps \<and> length eps = 2"
proof -
  from summary_two_lives [of pd]
  obtain eps where e: "burnout_prepare_data pd 5 (enhance pd two_lives) = Inr eps"
    and m: "map (\<lambda>ep. (duration ep, event ep)) eps = [(3, 1), (2, 0)]"
    by (cases "burnout_prepare_data pd 5 (enhance pd two_lives)")
      (auto simp: episode_summary_def)
  from m have "length (map (\<lambda>ep. (duration ep, event ep)) eps) = 2" by simp
  then have "length eps = 2" by simp
  with e show ?thesis by blast
qed

lemma adherence_train_empty:
  "adherence_train lib a [] = (Inl (KeyError ''exercise_done''), a)"
  by (simp add: adherence_train_def adherence_prepare_data_def)

lemma pandas_trivial_libraries [simp]: "pandas trivial_libraries = exact_numerics"
  by (simp add: trivial_libraries_def)

lemma pandas_failing_cox_libraries [simp]: "pandas failing_cox_libraries = exact_numerics"
  by (simp add: failing_cox_libraries_def)

lemma pandas_failing_concordance_libraries [simp]:
  "pandas failing_concordance_libraries = exact_numerics"
  by (simp add: failing_concordance_libraries_def)

lemma new_models_untrained:
  "\<not> is_trained (new_AdherenceModel :: ('sc, 'lr) AdherenceModel)"
  "\<not> is_trained (new_BurnoutRiskModel thr :: 'cph BurnoutRiskModel)"
  "\<not> is_trained (new_AnomalyDetector :: ('sc, 'f) AnomalyDetector)"
  by (simp_all add: new_AdherenceModel_def new_BurnoutRiskModel_def new_AnomalyDetector_def)

lemma threshold_new_BurnoutRiskModel [simp]:
  "dropout_threshold (new_BurnoutRiskModel thr) = thr"
  by (simp add: new_BurnoutRiskModel_def)

subsection \<open>Training on too little data: the status results\<close>

text \<open>
  On a table that is not empty, each \<^verbatim>\<open>train\<close> answers too little data with a status
  dictionary and leaves the model as it was: \<^verbatim>\<open>AdherenceModel.train\<close> when fewer than 10
  rows remain after target preparation (status \<^verbatim>\<open>error\<close>; so for every table of 1 to 10
  rows), \<^verbatim>\<open>BurnoutRiskModel.train\<close> when \<^verbatim>\<open>prepare_data\<close> returns fewer than 2 episodes
  (status \<^verbatim>\<open>warning\<close>), \<^verbatim>\<open>AnomalyDetector.train\<close> when the table has fewer than 14 rows
  (status \<^verbatim>\<open>error\<close>). A table without a qualifying dropout block gives at most one episode,
  a censored one, and never the status \<^verbatim>\<open>success\<close>. In a returned dictionary the status
  is \<^verbatim>\<open>error\<close> (adherence, anomaly) or \<^verbatim>\<open>warning\<close> (burnout) exactly when the data was
  insufficient.
\<close>

lemma train_status_on_insufficient_data:
  fixes lib :: "('sc, 'lr, 'f, 'cph) libraries"
  shows
  "(adherence_prepare_data df = Inr (X, y) \<and> length X < 10 \<longrightarrow>
      adherence_train lib a df =
        (Inr [''status'' \<mapsto> PyStr ''error'',
              ''message'' \<mapsto> PyStr ''Not enough data to train''], a))
 \<and> (df \<noteq> [] \<and> length df \<le> 10 \<longrightarrow>
      (\<exists>d. adherence_train lib a df = (Inr d, a) \<and> d ''status'' = Some (PyStr ''error'')))
 \<and> (burnout_prepare_data (pandas lib) (dropout_threshold b) df = Inr eps \<and> length eps < 2 \<longrightarrow>
      burnout_train lib b df =
        (Inr [''status'' \<mapsto> PyStr ''warning'',
              ''message'' \<mapsto> PyStr ''Not enough streaks to train survival model''], b))
 \<and> (df \<noteq> [] \<and> spec_death_dates (dropout_threshold b) (sort_key date df) = [] \<longrightarrow>
      (\<exists>eps. burnout_prepare_data (pandas lib) (dropout_threshold b) df = Inr eps \<and> length eps \<le> 1
            \<and> (\<forall>ep\<in>set eps. event ep = 0))
      \<and> (\<exists>d. burnout_train lib b df = (Inr d, b) \<and> d ''status'' = Some (PyStr ''warning'')))
 \<and> (spec_death_dates (dropout_threshold b) (sort_key date df) = [] \<longrightarrow>
      (\<forall>d. fst (burnout_train lib b df) = Inr d \<longrightarrow> d ''status'' \<noteq> Some (PyStr ''success'')))
 \<and> (length df < 14 \<longrightarrow>
      anomaly_train lib c df =
        (Inr [''status'' \<mapsto> PyStr ''error'', ''message'' \<mapsto> PyStr ''Need 2 weeks data''], c))
 \<and> (\<forall>d. fst (adherence_train lib a df) = Inr d \<longrightarrow>
        (d ''status'' = Some (PyStr ''error''))
        = (\<exists>X y. adherence_prepare_data df = Inr (X, y) \<and> length X < 10))
 \<and> (\<forall>d. fst (burnout_train lib b df) = Inr d \<longrightarrow>
        (d ''status'' = Some (PyStr ''warning''))
        = (\<exists>eps. burnout_prepare_data (pandas lib) (dropout_threshold b) df = Inr eps \<and> length eps < 2))
 \<and> (\<forall>d. fst (anomaly_train lib c df) = Inr d \<longrightarrow>
        (d ''status'' = Some (PyStr ''error'')) = (length df < 14))"
proof -
  have 1: "adherence_train lib a df =
        (Inr [''status'' \<mapsto> PyStr ''error'',
              ''message'' \<mapsto> PyStr ''Not enough data to train''], a)"
    if "adherence_prepare_data df = Inr (X, y) \<and> length X < 10"
    using that by (intro adherence_train_insufficient) auto
  have 2: "\<exists>d. adherence_train lib a df = (Inr d, a) \<and> d ''status'' = Some (PyStr ''error'')"
    if "df \<noteq> [] \<and> length df \<le> 10"
  proof -
    from that adherence_prepare_data_rows [of df] obtain X' y'
      where p: "adherence_prepare_data df = Inr (X', y')" and l: "length X' = length df - 1"
      by auto
    from that l have "length X' < 10" by (cases df) auto
    from adherence_train_insufficient [OF p this, of lib a] show ?thesis by simp
  qed
  have 3: "burnout_train lib b df =
        (Inr [''status'' \<mapsto> PyStr ''warning'',
              ''message'' \<mapsto> PyStr ''Not enough streaks to train survival model''], b)"
    if "burnout_prepare_data (pandas lib) (dropout_threshold b) df = Inr eps \<and> length eps < 2"
    using that by (intro burnout_train_insufficient) auto
  have 4: "(\<exists>eps. burnout_prepare_data (pandas lib) (dropout_threshold b) df = Inr eps \<and> length eps \<le> 1
            \<and> (\<forall>ep\<in>set eps. event ep = 0))
      \<and> (\<exists>d. burnout_train lib b df = (Inr d, b) \<and> d ''status'' = Some (PyStr ''warning''))"
    if "df \<noteq> [] \<and> spec_death_dates (dropout_threshold b) (sort_key date df) = []"
  proof -
    from that no_dropout_one_censored [of df "dropout_threshold b" "pandas lib"] obtain eps'
      where e: "burnout_prepare_data (pandas lib) (dropout_threshold b) df = Inr eps'" "length eps' \<le> 1"
        "\<forall>ep\<in>set eps'. event ep = 0"
      by auto
    from e(2) have "length eps' < 2" by simp
    from burnout_train_insufficient [OF e(1) this] e show ?thesis by auto
  qed
  have 5: "d ''status'' \<noteq> Some (PyStr ''success'')"
    if h: "spec_death_dates (dropout_threshold b) (sort_key date df) = []"
      and r: "fst (burnout_train lib b df) = Inr d" for d
  proof (cases "df = []")
    case True
    with r show ?thesis by (simp add: burnout_train_empty)
  next
    case False
    with h 4 obtain d' where "burnout_train lib b df = (Inr d', b)"
      "d' ''status'' = Some (PyStr ''warning'')" by blast
    with r show ?thesis by simp
  qed
  have 6: "anomaly_train lib c df =
        (Inr [''status'' \<mapsto> PyStr ''error'', ''message'' \<mapsto> PyStr ''Need 2 weeks data''], c)"
    if "length df < 14"
    using that by (rule anomaly_train_insufficient)
  note 7 = adherence_train_status [of lib a df]
  note 8 = burnout_train_status [of lib b df]
  note 9 = anomaly_train_status [of lib c df]
  from 1 2 3 4 5 6 7 8 9 show ?thesis by blast
qed

text \<open>
  Claim C6 has every \<^verbatim>\<open>train\<close> answer too little data with a status dictionary and not
  with an exception, in particular on any table without a qualifying dropout block. The
  empty table \<^verbatim>\<open>enhance([])\<close> has no rows and no such block. On it
  \<^verbatim>\<open>AnomalyDetector.train\<close> returns its status dictionary, while \<^verbatim>\<open>AdherenceModel.train\<close>
  and \<^verbatim>\<open>BurnoutRiskModel.train\<close> raise \<^verbatim>\<open>KeyError\<close>: they read the \<^verbatim>\<open>exercise_done\<close> column
  of a frame that has no columns before they count rows or episodes.
\<close>

theorem train_raises_on_empty_table:
  fixes lib :: "('sc, 'lr, 'f, 'cph) libraries"
  shows "enhance pd [] = []
       \<and> spec_death_dates (dropout_threshold b) (sort_key date (enhance pd [])) = []
       \<and> adherence_train lib a (enhance pd []) = (Inl (KeyError ''exercise_done''), a)
       \<and> burnout_train lib b (enhance pd []) = (Inl (KeyError ''exercise_done''), b)
       \<and> anomaly_train lib c (enhance pd [])
           = (Inr [''status'' \<mapsto> PyStr ''error'', ''message'' \<mapsto> PyStr ''Need 2 weeks data''],
              c)"
  by (simp add: enhance_Nil burnout_train_empty adherence_train_empty spec_death_dates_def
      spec_miss_blocks_def anomaly_train_def)

subsection \<open>The trained flag after a call of \<^verbatim>\<open>train\<close> without success\<close>

lemma adherence_train_non_success:
  assumes "fst (adherence_train lib a df) = Inr d" and "d ''status'' = Some (PyStr ''error'')"
  shows "snd (adherence_train lib a df) = a"
  using assms
  by (auto simp: adherence_train_def Let_def
      split: sum.splits prod.splits if_splits py_error.splits)

lemma anomaly_train_non_success:
  assumes "fst (anomaly_train lib c df) = Inr d" and "d ''status'' \<noteq> Some (PyStr ''success'')"
  shows "snd (anomaly_train lib c df) = c"
  using assms
  by (auto simp: anomaly_train_def Let_def split: sum.splits if_splits)

lemma burnout_train_non_success:
  assumes "fst (burnout_train lib b df) = Inr d" and "d ''status'' \<noteq> Some (PyStr ''success'')"
  shows "snd (burnout_train lib b df) = b
       \<or> (\<exists>eps fitted e.
             burnout_prepare_data (pandas lib) (dropout_threshold b) df = Inr eps
           \<and> \<not> length eps < 2
           \<and> cph_fit lib (map survival_row eps) = Inr fitted
           \<and> cph_concordance_index lib fitted = Inl e
           \<and> burnout_train lib b df
               = (Inr [''status'' \<mapsto> PyStr ''error'', ''message'' \<mapsto> PyStr (error_str e)],
                  b\<lparr>cph := Some fitted, is_trained := True\<rparr>))"
  using assms
  by (auto simp: burnout_train_def Let_def split: sum.splits if_splits)

text \<open>
  Claim C10 holds for every result without success of \<^verbatim>\<open>AdherenceModel.train\<close> and of
  \<^verbatim>\<open>AnomalyDetector.train\<close>, and for \<^verbatim>\<open>BurnoutRiskModel.train\<close> when there are fewer than 2
  episodes or the Cox fit raises: the model object is left exactly as it was, so on a
  model that was not trained the flag stays false and inference answers as on a fresh
  model (the not-trained error, 0.5, \<^verbatim>\<open>is_anomaly = False\<close>). It fails for the one other
  result without success of \<^verbatim>\<open>BurnoutRiskModel.train\<close>: the flag is set as soon as the fit
  returns, before the concordance index and the coefficients are read for the result;
  when that reading raises, \<^verbatim>\<open>train\<close> returns the status \<^verbatim>\<open>error\<close> with the flag set, and
  \<^verbatim>\<open>predict_current_risk\<close> asks the fitted model where the claim has 0.5.
\<close>

theorem train_without_success_trained_flag:
  fixes lib :: "('sc, 'lr, 'f, 'cph) libraries"
  shows
  "(adherence_prepare_data df = Inr (X, y) \<and> length X < 10 \<longrightarrow>
      (\<exists>d. fst (adherence_train lib a df) = Inr d \<and> d ''status'' = Some (PyStr ''error''))
      \<and> snd (adherence_train lib a df) = a
      \<and> (\<not> is_trained a \<longrightarrow>
            \<not> is_trained (snd (adherence_train lib a df))
          \<and> predict_next_day_proba lib (snd (adherence_train lib a df)) row
              = Inl (ValueError ''Model not trained yet'')))
 \<and> (burnout_prepare_data (pandas lib) (dropout_threshold b) df = Inr eps
      \<and> (length eps < 2 \<or> (\<exists>e. cph_fit lib (map survival_row eps) = Inl e)) \<longrightarrow>
      (\<exists>d. fst (burnout_train lib b df) = Inr d
           \<and> (d ''status'' = Some (PyStr ''warning'') \<or> d ''status'' = Some (PyStr ''error'')))
      \<and> snd (burnout_train lib b df) = b
      \<and> (\<not> is_trained b \<longrightarrow>
            \<not> is_trained (snd (burnout_train lib b df))
          \<and> predict_current_risk lib (snd (burnout_train lib b df)) feats = Inr 0.5))
 \<and> (length df < 14 \<longrightarrow>
      (\<exists>d. fst (anomaly_train lib c df) = Inr d \<and> d ''status'' = Some (PyStr ''error''))
      \<and> snd (anomaly_train lib c df) = c
      \<and> (\<not> is_trained c \<longrightarrow>
            \<not> is_trained (snd (anomaly_train lib c df))
          \<and> (\<exists>d. check_anomaly lib (snd (anomaly_train lib c df)) day_row = Inr d
                 \<and> d ''is_anomaly'' = Some (PyBool False))))
 \<and> (\<forall>d. fst (adherence_train lib a df) = Inr d \<and> d ''status'' = Some (PyStr ''error'') \<longrightarrow>
        snd (adherence_train lib a df) = a)
 \<and> (\<forall>d. fst (anomaly_train lib c df) = Inr d \<and> d ''status'' \<noteq> Some (PyStr ''success'') \<longrightarrow>
        snd (anomaly_train lib c df) = c)
 \<and> (\<forall>d. fst (burnout_train lib b df) = Inr d \<and> d ''status'' \<noteq> Some (PyStr ''success'') \<longrightarrow>
        snd (burnout_train lib b df) = b
      \<or> (\<exists>eps fitted e.
            burnout_prepare_data (pandas lib) (dropout_threshold b) df = Inr eps
          \<and> \<not> length eps < 2
          \<and> cph_fit lib (map survival_row eps) = Inr fitted
          \<and> cph_concordance_index lib fitted = Inl e))
 \<and> (burnout_prepare_data (pandas lib) (dropout_threshold b) df = Inr eps
      \<and> \<not> length eps < 2
      \<and> cph_fit lib (map survival_row eps) = Inr fitted
      \<and> cph_concordance_index lib fitted = Inl e \<longrightarrow>
      fst (burnout_train lib b df)
        = Inr [''status'' \<mapsto> PyStr ''error'', ''message'' \<mapsto> PyStr (error_str e)]
      \<and> is_trained (snd (burnout_train lib b df))
      \<and> predict_current_risk lib (snd (burnout_train lib b df)) feats
          = cph_predict_partial_hazard lib fitted feats)"
proof -
  have 1: "(\<exists>d. fst (adherence_train lib a df) = Inr d \<and> d ''status'' = Some (PyStr ''error''))
      \<and> snd (adherence_train lib a df) = a
      \<and> (\<not> is_trained a \<longrightarrow>
            \<not> is_trained (snd (adherence_train lib a df))
          \<and> predict_next_day_proba lib (snd (adherence_train lib a df)) row
              = Inl (ValueError ''Model not trained yet''))"
    if h: "adherence_prepare_data df = Inr (X, y) \<and> length X < 10"
  proof -
    from h have "adherence_train lib a df =
        (Inr [''status'' \<mapsto> PyStr ''error'',
              ''message'' \<mapsto> PyStr ''Not enough data to train''], a)"
      by (intro adherence_train_insufficient) auto
    then show ?thesis by (simp add: predict_next_day_proba_def)
  qed
  have 2: "(\<exists>d. fst (burnout_train lib b df) = Inr d
           \<and> (d ''status'' = Some (PyStr ''warning'') \<or> d ''status'' = Some (PyStr ''error'')))
      \<and> snd (burnout_train lib b df) = b
      \<and> (\<not> is_trained b \<longrightarrow>
            \<not> is_trained (snd (burnout_train lib b df))
          \<and> predict_current_risk lib (snd (burnout_train lib b df)) feats = Inr 0.5)"
    if h: "burnout_prepare_data (pandas lib) (dropout_threshold b) df = Inr eps
      \<and> (length eps < 2 \<or> (\<exists>e. cph_fit lib (map survival_row eps) = Inl e))"
  proof (cases "length eps < 2")
    case True
    with h have "burnout_train lib b df =
           (Inr [''status'' \<mapsto> PyStr ''warning'',
                 ''message'' \<mapsto> PyStr ''Not enough streaks to train survival model''], b)"
      by (intro burnout_train_insufficient) auto
    then show ?thesis by (simp add: predict_current_risk_def)
  next
    case False
    with h obtain e where "cph_fit lib (map survival_row eps) = Inl e" by auto
    with h False have "burnout_train lib b df =
           (Inr [''status'' \<mapsto> PyStr ''error'', ''message'' \<mapsto> PyStr (error_str e)], b)"
      by (intro burnout_train_failed_fit) auto
    then show ?thesis by (simp add: predict_current_risk_def)
  qed
  have 3: "(\<exists>d. fst (anomaly_train lib c df) = Inr d \<and> d ''status'' = Some (PyStr ''error''))
      \<and> snd (anomaly_train lib c df) = c
      \<and> (\<not> is_trained c \<longrightarrow>
            \<not> is_trained (snd (anomaly_train lib c df))
          \<and> (\<exists>d. check_anomaly lib (snd (anomaly_train lib c df)) day_row = Inr d
                 \<and> d ''is_anomaly'' = Some (PyBool False)))"
    if h: "length df < 14"
  proof -
    from h have "anomaly_train lib c df =
           (Inr [''status'' \<mapsto> PyStr ''error'', ''message'' \<mapsto> PyStr ''Need 2 weeks data''], c)"
      by (rule anomaly_train_insufficient)
    then show ?thesis by (simp add: check_anomaly_def)
  qed
  have 4: "snd (adherence_train lib a df) = a"
    if "fst (adherence_train lib a df) = Inr d \<and> d ''status'' = Some (PyStr ''error'')" for d
    using that by (auto intro: adherence_train_non_success)
  have 5: "snd (anomaly_train lib c df) = c"
    if "fst (anomaly_train lib c df) = Inr d \<and> d ''status'' \<noteq> Some (PyStr ''success'')" for d
    using that by (auto intro: anomaly_train_non_success)
  have 6: "snd (burnout_train lib b df) = b
      \<or> (\<exists>eps fitted e.
            burnout_prepare_data (pandas lib) (dropout_threshold b) df = Inr eps
          \<and> \<not> length eps < 2
          \<and> cph_fit lib (map survival_row eps) = Inr fitted
          \<and> cph_concordance_index lib fitted = Inl e)"
    if "fst (burnout_train lib b df) = Inr d \<and> d ''status'' \<noteq> Some (PyStr ''success'')" for d
    using that burnout_train_non_success [of lib b df d] by blast
  have 7: "fst (burnout_train lib b df)
        = Inr [''status'' \<mapsto> PyStr ''error'', ''message'' \<mapsto> PyStr (error_str e)]
      \<and> is_trained (snd (burnout_train lib b df))
      \<and> predict_current_risk lib (snd (burnout_train lib b df)) feats
          = cph_predict_partial_hazard lib fitted feats"
    if h: "burnout_prepare_data (pandas lib) (dropout_threshold b) df = Inr eps
      \<and> \<not> length eps < 2
      \<and> cph_fit lib (map survival_row eps) = Inr fitted
      \<and> cph_concordance_index lib fitted = Inl e"
  proof -
    from h have "burnout_train lib b df =
           (Inr [''status'' \<mapsto> PyStr ''error'', ''message'' \<mapsto> PyStr (error_str e)],
            b\<lparr>cph := Some fitted, is_trained := True\<rparr>)"
      by (intro burnout_train_error_after_fit) auto
    then show ?thesis by (simp add: predict_current_risk_def)
  qed
  show ?thesis
  proof (intro conjI impI allI)
  qed (use 1 2 3 4 5 6 7 in \<open>blast+\<close>)
qed

theorem train_without_success_trained_flag_witness:
  "\<not> is_trained
      (snd (adherence_train trivial_libraries new_AdherenceModel
              (enhance exact_numerics history_a)))
 \<and> predict_next_day_proba trivial_libraries
      (snd (adherence_train trivial_libraries new_AdherenceModel
              (enhance exact_numerics history_a)))
      (hd (enhance exact_numerics history_a))
    = Inl (ValueError ''Model not trained yet'')
 \<and> \<not> is_trained
      (snd (burnout_train trivial_libraries (new_BurnoutRiskModel 5)
              (enhance exact_numerics history_a)))
 \<and> (\<exists>d. fst (burnout_train failing_cox_libraries (new_BurnoutRiskModel 5)
                 (enhance exact_numerics two_lives)) = Inr d
        \<and> d ''status'' = Some (PyStr ''error''))
 \<and> \<not> is_trained
      (snd (burnout_train failing_cox_libraries (new_BurnoutRiskModel 5)
              (enhance exact_numerics two_lives)))
 \<and> predict_current_risk failing_cox_libraries
      (snd (burnout_train failing_cox_libraries (new_BurnoutRiskModel 5)
              (enhance exact_numerics two_lives)))
      Map.empty = Inr 0.5
 \<and> \<not> is_trained
      (snd (anomaly_train trivial_libraries new_AnomalyDetector
              (enhance exact_numerics history_a)))
 \<and> fst (burnout_train failing_concordance_libraries (new_BurnoutRiskModel 5)
           (enhance exact_numerics two_lives))
    = Inr [''status'' \<mapsto> PyStr ''error'', ''message'' \<mapsto> PyStr ''ZeroDivisionError'']
 \<and> is_trained
      (snd (burnout_train failing_concordance_libraries (new_BurnoutRiskModel 5)
              (enhance exact_numerics two_lives)))
 \<and> predict_current_risk failing_concordance_libraries
      (snd (burnout_train failing_concordance_libraries (new_BurnoutRiskModel 5)
              (enhance exact_numerics two_lives)))
      Map.empty = Inr 1"
proof -
  let ?A = "enhance exact_numerics history_a"
  let ?T = "enhance exact_numerics two_lives"
  have u: "\<not> is_trained (new_AdherenceModel :: (unit, unit) AdherenceModel)"
    "\<not> is_trained (new_BurnoutRiskModel 5 :: unit BurnoutRiskModel)"
    "\<not> is_trained (new_AnomalyDetector :: (unit, unit) AnomalyDetector)"
    by (rule new_models_untrained)+
  have ne: "?A \<noteq> []" "length ?A < 14"
    by (simp add: enhance_history_a) (simp add: history_a_def)
  from adherence_prepare_data_rows [OF ne(1)] obtain X y
    where p: "adherence_prepare_data ?A = Inr (X, y)" and "length X < 10"
    by (auto simp: history_a_def)
  then have hA: "adherence_prepare_data ?A = Inr (X, y) \<and> length X < 10"
    by simp
  have dA: "spec_death_dates 5 (sort_key date ?A) = []"
    by (simp only: sorted_enhance deaths_history_a)
  from no_dropout_one_censored [OF ne(1) dA, of exact_numerics] obtain eps1
    where "burnout_prepare_data exact_numerics 5 ?A = Inr eps1" "length eps1 \<le> 1"
    by auto
  then have hB1: "burnout_prepare_data (pandas trivial_libraries)
                    (dropout_threshold (new_BurnoutRiskModel 5 :: unit BurnoutRiskModel)) ?A
                  = Inr eps1
      \<and> (length eps1 < 2
          \<or> (\<exists>e. cph_fit trivial_libraries (map survival_row eps1) = Inl e))"
    by simp
  from prepare_data_two_lives [of exact_numerics] obtain eps2
    where e2: "burnout_prepare_data exact_numerics 5 ?T = Inr eps2" "length eps2 = 2"
    by auto
  have "cph_fit failing_cox_libraries (map survival_row eps2)
        = Inl (LibraryError ''ConvergenceError'')"
    by (simp add: failing_cox_libraries_def)
  with e2 have hB2: "burnout_prepare_data (pandas failing_cox_libraries)
                    (dropout_threshold (new_BurnoutRiskModel 5 :: unit BurnoutRiskModel)) ?T
                  = Inr eps2
      \<and> (length eps2 < 2
          \<or> (\<exists>e. cph_fit failing_cox_libraries (map survival_row eps2) = Inl e))"
    by simp
  have f3: "cph_fit failing_concordance_libraries (map survival_row eps2) = Inr ()"
    "cph_concordance_index failing_concordance_libraries ()
       = Inl (LibraryError ''ZeroDivisionError'')"
    "cph_predict_partial_hazard failing_concordance_libraries () Map.empty = Inr 1"
    by (simp_all add: failing_concordance_libraries_def trivial_libraries_def)
  with e2 have hB3: "burnout_prepare_data (pandas failing_concordance_libraries)
                    (dropout_threshold (new_BurnoutRiskModel 5 :: unit BurnoutRiskModel)) ?T
                  = Inr eps2
      \<and> \<not> length eps2 < 2
      \<and> cph_fit failing_concordance_libraries (map survival_row eps2) = Inr ()
      \<and> cph_concordance_index failing_concordance_libraries ()
          = Inl (LibraryError ''ZeroDivisionError'')"
    by simp
  have w: "\<And>d. fst (burnout_train failing_cox_libraries (new_BurnoutRiskModel 5) ?T) = Inr d
              \<Longrightarrow> d ''status'' \<noteq> Some (PyStr ''warning'')"
    using burnout_train_status [of failing_cox_libraries "new_BurnoutRiskModel 5" ?T] e2
    by simp
  note A = train_without_success_trained_flag
    [where lib = trivial_libraries and a = new_AdherenceModel and df = ?A
       and X = X and y = y and row = "hd ?A"
       and b = "new_BurnoutRiskModel 5" and eps = eps1 and c = new_AnomalyDetector
       and feats = Map.empty and day_row = anomaly_day_row]
  note B = train_without_success_trained_flag
    [where lib = failing_cox_libraries and b = "new_BurnoutRiskModel 5"
       and df = ?T and eps = eps2 and feats = Map.empty
       and a = new_AdherenceModel and c = new_AnomalyDetector and X = X and y = y
       and row = "hd ?A" and day_row = anomaly_day_row]
  note C = train_without_success_trained_flag
    [where lib = failing_concordance_libraries and b = "new_BurnoutRiskModel 5"
       and df = ?T and eps = eps2 and feats = Map.empty and fitted = "()" and
       e = "LibraryError ''ZeroDivisionError''"
       and a = new_AdherenceModel and c = new_AnomalyDetector and X = X and y = y
       and row = "hd ?A" and day_row = anomaly_day_row]
  have a1: "\<not> is_trained (snd (adherence_train trivial_libraries new_AdherenceModel ?A))
      \<and> predict_next_day_proba trivial_libraries
           (snd (adherence_train trivial_libraries new_AdherenceModel ?A)) (hd ?A)
         = Inl (ValueError ''Model not trained yet'')"
    using A [THEN conjunct1] hA u by blast
  have a2: "\<not> is_trained (snd (burnout_train trivial_libraries (new_BurnoutRiskModel 5) ?A))"
    using A [THEN conjunct2, THEN conjunct1] hB1 u by blast
  have a3: "\<not> is_trained (snd (anomaly_train trivial_libraries new_AnomalyDetector ?A))"
    using A [THEN conjunct2, THEN conjunct2, THEN conjunct1] ne u by blast
  have b1: "(\<exists>d. fst (burnout_train failing_cox_libraries (new_BurnoutRiskModel 5) ?T) = Inr d
        \<and> d ''status'' = Some (PyStr ''error''))
      \<and> \<not> is_trained (snd (burnout_train failing_cox_libraries (new_BurnoutRiskModel 5) ?T))
      \<and> predict_current_risk failing_cox_libraries
           (snd (burnout_train failing_cox_libraries (new_BurnoutRiskModel 5) ?T)) Map.empty
         = Inr 0.5"
    using B [THEN conjunct2, THEN conjunct1] hB2 u w by blast
  have c1: "fst (burnout_train failing_concordance_libraries (new_BurnoutRiskModel 5) ?T)
        = Inr [''status'' \<mapsto> PyStr ''error'', ''message'' \<mapsto> PyStr ''ZeroDivisionError'']
      \<and> is_trained
           (snd (burnout_train failing_concordance_libraries (new_BurnoutRiskModel 5) ?T))
      \<and> predict_current_risk failing_concordance_libraries
           (snd (burnout_train failing_concordance_libraries (new_BurnoutRiskModel 5) ?T))
           Map.empty = Inr 1"
    using C [THEN conjunct2, THEN conjunct2, THEN conjunct2, THEN conjunct2, THEN conjunct2,
        THEN conjunct2] hB3 f3(3)
    by simp
  from a1 a2 a3 b1 c1 show ?thesis by simp
qed

end
